theory Spec2Isabelle
  imports Complex_Main "HOL-Library.Finite_Map"
begin

section \<open>Python values handled by \<open>weather_manager.py\<close>\<close>

text \<open>
  The weather manager works on parsed JSON (\<open>response.json()\<close>). A JSON object is a Python
  dict with string keys: a finite map, so that HOL equality on \<open>json\<close> is Python's \<open>==\<close>
  (dict equality ignores insertion order). Numbers are the exact values of Python's ints and
  finite floats; JSON \<open>true\<close>/\<open>false\<close> are Python's \<open>True\<close>/\<open>False\<close>, which are the
  ints 1 and 0 for every operation used here (\<open>==\<close>, hashing, truth value, \<open>round\<close>,
  \<open>fromtimestamp\<close>), and are stored as \<open>JNum 1\<close>/\<open>JNum 0\<close>. NaN and infinities, which
  are not JSON, are left out.
\<close>

datatype json =
    JNull
  | JNum real
  | JStr string
  | JArr "json list"
  | JObj "(string, json) fmap"

datatype error =
    KeyError
  | IndexError
  | TypeError
  | AttributeError
  | ValueError
  | OverflowError
  | OSError
  | ConnectionError
  | HTTPError
  | JSONDecodeError

text \<open>Sequencing of steps that may raise: the first exception wins.\<close>

definition bind_err :: "error + 'a \<Rightarrow> ('a \<Rightarrow> error + 'b) \<Rightarrow> error + 'b" where
  "bind_err m f = (case m of Inl e \<Rightarrow> Inl e | Inr x \<Rightarrow> f x)"

text \<open>Python's truth value (\<open>not v\<close> is its negation).\<close>

fun truthy :: "json \<Rightarrow> bool" where
  "truthy JNull = False"
| "truthy (JNum x) = (x \<noteq> 0)"
| "truthy (JStr s) = (s \<noteq> [])"
| "truthy (JArr xs) = (xs \<noteq> [])"
| "truthy (JObj m) = (m \<noteq> fmempty)"

text \<open>An attribute that holds \<open>None\<close> or a list.\<close>

definition truthy_list :: "'a list option \<Rightarrow> bool" where
  "truthy_list v = (case v of None \<Rightarrow> False | Some xs \<Rightarrow> xs \<noteq> [])"

text \<open>\<open>v[k]\<close> for a string key \<open>k\<close>.\<close>

fun getitem :: "json \<Rightarrow> string \<Rightarrow> error + json" where
  "getitem (JObj m) k = (case fmlookup m k of None \<Rightarrow> Inl KeyError | Some v \<Rightarrow> Inr v)"
| "getitem (JArr xs) k = Inl TypeError"
| "getitem (JStr s) k = Inl TypeError"
| "getitem (JNum x) k = Inl TypeError"
| "getitem JNull k = Inl TypeError"

text \<open>\<open>v[0]\<close>. A string yields its first character; a dict has string keys only.\<close>

fun getitem0 :: "json \<Rightarrow> error + json" where
  "getitem0 (JArr xs) = (case xs of [] \<Rightarrow> Inl IndexError | x # _ \<Rightarrow> Inr x)"
| "getitem0 (JStr s) = (case s of [] \<Rightarrow> Inl IndexError | c # _ \<Rightarrow> Inr (JStr [c]))"
| "getitem0 (JObj m) = Inl KeyError"
| "getitem0 (JNum x) = Inl TypeError"
| "getitem0 JNull = Inl TypeError"

text \<open>
  \<open>round(x)\<close> with one argument: the nearest integer, a tie going to the even neighbour.
\<close>

definition py_round :: "real \<Rightarrow> int" where
  "py_round x =
     (let f = \<lfloor>x\<rfloor>; d = x - of_int f
      in if d < 1 / 2 then f else if 1 / 2 < d then f + 1 else if even f then f else f + 1)"

fun round_json :: "json \<Rightarrow> error + int" where
  "round_json (JNum x) = Inr (py_round x)"
| "round_json v = Inl TypeError"

text \<open>
  \<open>max(xs)\<close>, \<open>min(xs)\<close> and \<open>max(xs, key=f)\<close> keep the first of several extremal items:
  the running best is replaced only by a strictly better item.
\<close>

fun max_by :: "('a \<Rightarrow> 'b::linorder) \<Rightarrow> 'a \<Rightarrow> 'a list \<Rightarrow> 'a" where
  "max_by key best [] = best"
| "max_by key best (y # ys) = max_by key (if key best < key y then y else best) ys"

fun min_by :: "('a \<Rightarrow> 'b::linorder) \<Rightarrow> 'a \<Rightarrow> 'a list \<Rightarrow> 'a" where
  "min_by key best [] = best"
| "min_by key best (y # ys) = min_by key (if key y < key best then y else best) ys"

text \<open>
  The temperatures of a group, for \<open>round(max(temps))\<close> and \<open>round(min(temps))\<close>. With an
  item that is not a number either the comparison inside \<open>max\<close> raises TypeError (a number
  against a string, list, dict or None; two dicts; two Nones) or \<open>max\<close> returns a
  non-number and \<open>round\<close> raises TypeError: the outcome is TypeError in every case.
\<close>

fun numbers :: "json list \<Rightarrow> error + real list" where
  "numbers [] = Inr []"
| "numbers (JNum x # vs) = bind_err (numbers vs) (\<lambda>xs. Inr (x # xs))"
| "numbers (v # vs) = Inl TypeError"

definition round_max :: "json list \<Rightarrow> error + int" where
  "round_max temps =
     bind_err (numbers temps)
       (\<lambda>xs. case xs of [] \<Rightarrow> Inl ValueError | x # ys \<Rightarrow> Inr (py_round (max_by id x ys)))"

definition round_min :: "json list \<Rightarrow> error + int" where
  "round_min temps =
     bind_err (numbers temps)
       (\<lambda>xs. case xs of [] \<Rightarrow> Inl ValueError | x # ys \<Rightarrow> Inr (py_round (min_by id x ys)))"

text \<open>Lists and dicts are unhashable: \<open>set(...)\<close> raises TypeError on them.\<close>

fun hashable :: "json \<Rightarrow> bool" where
  "hashable (JArr xs) = False"
| "hashable (JObj m) = False"
| "hashable v = True"

section \<open>Local time and \<open>strftime\<close>\<close>

record datetime =
  year :: nat
  month :: nat
  day :: nat
  hour :: nat
  minute :: nat
  second :: nat

text \<open>
  \<open>datetime.fromtimestamp\<close> depends on the machine's time zone and raises for a timestamp
  out of the platform's range: it is a parameter \<open>real \<Rightarrow> error + datetime\<close> of the model.
  Applied to a value that is not a number it raises TypeError.
\<close>

fun py_fromtimestamp :: "(real \<Rightarrow> error + datetime) \<Rightarrow> json \<Rightarrow> error + datetime" where
  "py_fromtimestamp tz (JNum x) = tz x"
| "py_fromtimestamp tz v = Inl TypeError"

fun show_nat :: "nat \<Rightarrow> string" where
  "show_nat n =
     (if n < 10 then [''0123456789'' ! n]
      else show_nat (n div 10) @ [''0123456789'' ! (n mod 10)])"

declare show_nat.simps [simp del]

definition pad2 :: "nat \<Rightarrow> string" where
  "pad2 n = (if n < 10 then CHR ''0'' # show_nat n else show_nat n)"

text \<open>\<open>'%Y-%m-%d'\<close>, the key of the daily groups.\<close>

definition strftime_Ymd :: "datetime \<Rightarrow> string" where
  "strftime_Ymd dt = show_nat (year dt) @ ''-'' @ pad2 (month dt) @ ''-'' @ pad2 (day dt)"

text \<open>\<open>'%m/%d'\<close>.\<close>

definition strftime_md :: "datetime \<Rightarrow> string" where
  "strftime_md dt = pad2 (month dt) @ ''/'' @ pad2 (day dt)"

text \<open>\<open>'%I%p'\<close> in the C locale: the hour on the 12-hour clock, two digits, then AM or PM.\<close>

definition hour12 :: "nat \<Rightarrow> nat" where
  "hour12 h = (if h mod 12 = 0 then 12 else h mod 12)"

definition strftime_Ip :: "datetime \<Rightarrow> string" where
  "strftime_Ip dt = pad2 (hour12 (hour dt)) @ (if hour dt < 12 then ''AM'' else ''PM'')"

text \<open>\<open>s.lstrip('0')\<close>.\<close>

definition lstrip0 :: "string \<Rightarrow> string" where
  "lstrip0 s = dropWhile (\<lambda>c. c = CHR ''0'') s"

text \<open>
  Days since 1970-01-01 of a date of the proleptic Gregorian calendar, and the day of the
  week (Monday is 0) for \<open>'%a'\<close> in the C locale.
\<close>

definition days_from_civil :: "int \<Rightarrow> int \<Rightarrow> int \<Rightarrow> int" where
  "days_from_civil y m d =
     (let y' = (if m \<le> 2 then y - 1 else y);
          era = y' div 400;
          yoe = y' - era * 400;
          doy = (153 * (if 2 < m then m - 3 else m + 9) + 2) div 5 + d - 1;
          doe = yoe * 365 + yoe div 4 - yoe div 100 + doy
      in era * 146097 + doe - 719468)"

definition weekday :: "datetime \<Rightarrow> nat" where
  "weekday dt = nat ((days_from_civil (int (year dt)) (int (month dt)) (int (day dt)) + 3) mod 7)"

definition strftime_a :: "datetime \<Rightarrow> string" where
  "strftime_a dt = [''Mon'', ''Tue'', ''Wed'', ''Thu'', ''Fri'', ''Sat'', ''Sun''] ! weekday dt"

text \<open>
  One admissible clock: \<open>fromtimestamp\<close> on a machine whose time zone is UTC, with
  Python's range of years. It serves to run the model on concrete payloads.
\<close>

definition civil_from_days :: "int \<Rightarrow> int \<times> int \<times> int" where
  "civil_from_days z0 =
     (let z = z0 + 719468;
          era = z div 146097;
          doe = z - era * 146097;
          yoe = (doe - doe div 1460 + doe div 36524 - doe div 146096) div 365;
          doy = doe - (365 * yoe + yoe div 4 - yoe div 100);
          mp = (5 * doy + 2) div 153;
          d = doy - (153 * mp + 2) div 5 + 1;
          m = (if mp < 10 then mp + 3 else mp - 9)
      in (yoe + era * 400 + (if m \<le> 2 then 1 else 0), m, d))"

definition utc_fromtimestamp :: "real \<Rightarrow> error + datetime" where
  "utc_fromtimestamp x =
     (let s = \<lfloor>x\<rfloor>;
          sod = s mod 86400;
          ymd = civil_from_days (s div 86400);
          y = fst ymd
      in if y < 1 \<or> 9999 < y then Inl ValueError
         else Inr \<lparr> year = nat y, month = nat (fst (snd ymd)), day = nat (snd (snd ymd)),
                    hour = nat (sod div 3600), minute = nat (sod mod 3600 div 60),
                    second = nat (sod mod 60) \<rparr>)"

section \<open>The display manager\<close>

text \<open>
  The display manager is a collaborator handed to the weather manager. The model records
  the calls it receives, in order; a formatted text is kept as its format and argument
  (the temperature followed by a degree sign is \<open>Degrees temp\<close>, \<open>f"Humidity: {humidity}%"\<close> is
  \<open>Humidity humidity\<close>). \<open>NewImage\<close> stands for the two assignments of
  \<open>_prepare_display\<close> (a fresh image and its draw object), \<open>DrawLine\<close> for
  \<open>display_manager.draw.line\<close>.
\<close>

datatype color = RGB nat nat nat

definition COLORS_text :: color where "COLORS_text = RGB 255 255 255"
definition COLORS_highlight :: color where "COLORS_highlight = RGB 255 200 0"
definition COLORS_separator :: color where "COLORS_separator = RGB 64 64 64"
definition COLORS_temp_high :: color where "COLORS_temp_high = RGB 255 100 100"
definition COLORS_temp_low :: color where "COLORS_temp_low = RGB 100 100 255"

definition PADDING :: int where "PADDING = 2"
definition ICON_SIZE_large :: int where "ICON_SIZE_large = 16"
definition ICON_SIZE_medium :: int where "ICON_SIZE_medium = 12"

datatype label = Plain string | Degrees int | Humidity json

datatype dm_call =
    Clear
  | NewImage int int
  | DrawText label "int option" int color bool
  | DrawWeatherIcon json int int int
  | DrawLine "int \<times> int" "int \<times> int" color
  | UpdateDisplay

section \<open>The weather manager\<close>

record hourly_entry =
  h_hour :: string
  h_temp :: int
  h_condition :: json

record daily_entry =
  d_date :: string
  d_date_str :: string
  d_temp_high :: int
  d_temp_low :: int
  d_condition :: json

text \<open>The four messages that \<open>_fetch_weather\<close> prints.\<close>

datatype log_msg =
    NoApiKey
  | NoCoordinates string string
  | Updated
  | FetchError error

text \<open>
  The attributes of a \<open>WeatherManager\<close>. \<open>api_key\<close>, \<open>units\<close> and \<open>update_interval\<close>
  are the entries of \<open>weather_config\<close> (\<open>None\<close> when the key is missing), \<open>location\<close> is
  the location dict. \<open>weather_data\<close> and \<open>forecast_data\<close> hold parsed JSON, Python's
  \<open>None\<close> being \<open>JNull\<close>. \<open>last_temp\<close> and \<open>last_condition\<close> are \<open>None\<close> while the
  attribute does not exist (\<open>hasattr\<close> is false). Three fields are not attributes: they
  record what the manager does to its surroundings. \<open>stdout\<close> collects what was printed,
  \<open>screen\<close> the calls the display manager has completed, and \<open>fetches\<close> counts the calls
  of \<open>_fetch_weather\<close>.
\<close>

record weather_manager =
  api_key :: "string option"
  units :: "string option"
  update_interval :: "real option"
  location :: "(string \<times> string) list"
  last_update :: real
  weather_data :: json
  forecast_data :: json
  hourly_forecast :: "hourly_entry list option"
  daily_forecast :: "daily_entry list option"
  last_draw_time :: real
  last_temp :: "int option"
  last_condition :: "json option"
  stdout :: "log_msg list"
  screen :: "dm_call list"
  fetches :: nat

text \<open>
  What the surroundings answer during one call of a method: the clock conversion, the
  iteration order of a \<open>set\<close> built from a list (it depends on the hashes of the items,
  which Python randomises for strings), the outcome of each HTTP request
  (\<open>requests.get\<close>, \<open>raise_for_status\<close>, \<open>json\<close>) as the exception raised or the parsed
  body, the readings of \<open>time.time()\<close> in \<open>get_weather\<close>, at the end of a successful
  \<open>_fetch_weather\<close> and in a display method, the exception (if any) a call of the display
  manager raises, and the size of the matrix.
\<close>

record env =
  fromtimestamp :: "real \<Rightarrow> error + datetime"
  set_iter :: "json list \<Rightarrow> json list"
  http_geo :: "string \<Rightarrow> string \<Rightarrow> string \<Rightarrow> string \<Rightarrow> error + json"
  http_weather :: "json \<Rightarrow> json \<Rightarrow> string \<Rightarrow> string \<Rightarrow> error + json"
  http_forecast :: "json \<Rightarrow> json \<Rightarrow> string \<Rightarrow> string \<Rightarrow> error + json"
  time_get :: real
  time_fetch :: real
  time_draw :: real
  dm :: "dm_call \<Rightarrow> error option"
  width :: int
  height :: int

subsection \<open>\<open>_process_forecast_data\<close>\<close>

text \<open>
  \<open>forecast_data.get('list', [])[:6]\<close> and what iterating over it yields. Only a dict
  has \<open>get\<close>; a list and a string can be sliced (a string iterates over its
  characters); slicing anything else raises.
\<close>

fun slice6 :: "json \<Rightarrow> error + json list" where
  "slice6 (JArr xs) = Inr (take 6 xs)"
| "slice6 (JStr s) = Inr (map (\<lambda>c. JStr [c]) (take 6 s))"
| "slice6 v = Inl TypeError"

fun forecast_list :: "json \<Rightarrow> error + json list" where
  "forecast_list (JObj m) = (case fmlookup m ''list'' of None \<Rightarrow> Inr [] | Some l \<Rightarrow> slice6 l)"
| "forecast_list v = Inl AttributeError"

text \<open>
  The three reads of a forecast item: \<open>item['dt']\<close>, \<open>item['main']['temp']\<close> and
  \<open>item['weather'][0]['main']\<close>.
\<close>

definition item_dt :: "json \<Rightarrow> error + json" where
  "item_dt item = getitem item ''dt''"

definition item_temp :: "json \<Rightarrow> error + json" where
  "item_temp item = bind_err (getitem item ''main'') (\<lambda>m. getitem m ''temp'')"

definition item_condition :: "json \<Rightarrow> error + json" where
  "item_condition item =
     bind_err (getitem item ''weather'') (\<lambda>w. bind_err (getitem0 w) (\<lambda>w0. getitem w0 ''main''))"

text \<open>
  \<open>datetime.fromtimestamp(item['dt'])\<close> and
  \<open>datetime.fromtimestamp(item['dt']).strftime('%Y-%m-%d')\<close>.
\<close>

definition item_datetime :: "(real \<Rightarrow> error + datetime) \<Rightarrow> json \<Rightarrow> error + datetime" where
  "item_datetime tz item = bind_err (item_dt item) (py_fromtimestamp tz)"

definition item_date :: "(real \<Rightarrow> error + datetime) \<Rightarrow> json \<Rightarrow> error + string" where
  "item_date tz item = bind_err (item_datetime tz item) (\<lambda>dt. Inr (strftime_Ymd dt))"

text \<open>The body of the first loop: one entry of the hourly forecast.\<close>

definition hourly_item :: "(real \<Rightarrow> error + datetime) \<Rightarrow> json \<Rightarrow> error + hourly_entry" where
  "hourly_item tz hour_data =
     bind_err (item_datetime tz hour_data) (\<lambda>dt.
     bind_err (item_temp hour_data) (\<lambda>t.
     bind_err (round_json t) (\<lambda>temp.
     bind_err (item_condition hour_data) (\<lambda>condition.
     Inr \<lparr> h_hour = lstrip0 (strftime_Ip dt), h_temp = temp, h_condition = condition \<rparr>))))"

text \<open>
  The first loop appends to \<open>self.hourly_forecast\<close>: when an item raises, the entries of
  the items before it stay in the attribute.
\<close>

fun hourly_loop ::
  "(real \<Rightarrow> error + datetime) \<Rightarrow> json list \<Rightarrow> hourly_entry list \<Rightarrow> hourly_entry list \<times> error option"
where
  "hourly_loop tz [] acc = (acc, None)"
| "hourly_loop tz (x # xs) acc =
     (case hourly_item tz x of
        Inl e \<Rightarrow> (acc, Some e)
      | Inr h \<Rightarrow> hourly_loop tz xs (acc @ [h]))"

text \<open>
  \<open>daily_data\<close> is a dict keyed by the date string; a dict iterates in insertion order,
  so it is an association list in which a new key goes to the end and an update stays in
  place.
\<close>

record day_group =
  temps :: "json list"
  conditions :: "json list"
  date :: datetime

definition upd_group ::
  "string \<Rightarrow> (day_group \<Rightarrow> day_group) \<Rightarrow> (string \<times> day_group) list \<Rightarrow> (string \<times> day_group) list"
where
  "upd_group k f dd = map (\<lambda>(k', g). if k' = k then (k', f g) else (k', g)) dd"

text \<open>The body of the second loop, which runs over the same \<open>hourly_list\<close>.\<close>

definition daily_item ::
  "(real \<Rightarrow> error + datetime) \<Rightarrow> json \<Rightarrow> (string \<times> day_group) list \<Rightarrow>
   error + (string \<times> day_group) list"
where
  "daily_item tz item daily_data =
     bind_err (item_date tz item) (\<lambda>date_key.
     bind_err
       (if date_key \<in> set (map fst daily_data) then Inr daily_data
        else
          bind_err (item_datetime tz item) (\<lambda>dt.
          Inr (daily_data @ [(date_key, \<lparr> temps = [], conditions = [], date = dt \<rparr>)])))
       (\<lambda>dd.
     bind_err (item_temp item) (\<lambda>t.
     bind_err (item_condition item) (\<lambda>c.
     Inr (upd_group date_key (\<lambda>g. g\<lparr>conditions := conditions g @ [c]\<rparr>)
            (upd_group date_key (\<lambda>g. g\<lparr>temps := temps g @ [t]\<rparr>) dd))))))"

fun daily_groups ::
  "(real \<Rightarrow> error + datetime) \<Rightarrow> json list \<Rightarrow> (string \<times> day_group) list \<Rightarrow>
   error + (string \<times> day_group) list"
where
  "daily_groups tz [] dd = Inr dd"
| "daily_groups tz (x # xs) dd = bind_err (daily_item tz x dd) (daily_groups tz xs)"

text \<open>
  \<open>max(set(conditions), key=conditions.count)\<close>: \<open>set\<close> raises on an unhashable item;
  \<open>max\<close> walks the set in its iteration order and keeps the first item whose count is
  greatest.
\<close>

definition dominant :: "(json list \<Rightarrow> json list) \<Rightarrow> json list \<Rightarrow> error + json" where
  "dominant si conds =
     (if list_all hashable conds then
        (case si conds of
           [] \<Rightarrow> Inl ValueError
         | x # xs \<Rightarrow> Inr (max_by (count_list conds) x xs))
      else Inl TypeError)"

text \<open>The body of the third loop: the summary of one date.\<close>

definition daily_summary :: "(json list \<Rightarrow> json list) \<Rightarrow> day_group \<Rightarrow> error + daily_entry" where
  "daily_summary si data =
     bind_err (round_max (temps data)) (\<lambda>temp_high.
     bind_err (round_min (temps data)) (\<lambda>temp_low.
     bind_err (dominant si (conditions data)) (\<lambda>condition.
     Inr \<lparr> d_date = strftime_a (date data), d_date_str = strftime_md (date data),
           d_temp_high = temp_high, d_temp_low = temp_low, d_condition = condition \<rparr>)))"

fun summary_loop ::
  "(json list \<Rightarrow> json list) \<Rightarrow> (string \<times> day_group) list \<Rightarrow> daily_entry list \<Rightarrow>
   daily_entry list \<times> error option"
where
  "summary_loop si [] acc = (acc, None)"
| "summary_loop si (kg # gs) acc =
     (case daily_summary si (snd kg) of
        Inl e \<Rightarrow> (acc, Some e)
      | Inr d \<Rightarrow> summary_loop si gs (acc @ [d]))"

text \<open>
  The method returns the manager as it has left it and the exception it raised, if any.
\<close>

definition process_forecast_data ::
  "env \<Rightarrow> json \<Rightarrow> weather_manager \<Rightarrow> weather_manager \<times> error option"
where
  "process_forecast_data e fd s =
     (if \<not> truthy fd then (s, None)
      else
        (case forecast_list fd of
           Inl x \<Rightarrow> (s, Some x)
         | Inr hourly_list \<Rightarrow>
             (case hourly_loop (fromtimestamp e) hourly_list [] of
                (hs, Some x) \<Rightarrow> (s\<lparr>hourly_forecast := Some hs\<rparr>, Some x)
              | (hs, None) \<Rightarrow>
                  (case daily_groups (fromtimestamp e) hourly_list [] of
                     Inl x \<Rightarrow> (s\<lparr>hourly_forecast := Some hs\<rparr>, Some x)
                   | Inr daily_data \<Rightarrow>
                       (case summary_loop (set_iter e) (take 3 daily_data) [] of
                          (ds, r) \<Rightarrow>
                            (s\<lparr>hourly_forecast := Some hs, daily_forecast := Some ds\<rparr>, r))))))"

subsection \<open>\<open>_fetch_weather\<close> and \<open>get_weather\<close>\<close>

definition say :: "log_msg \<Rightarrow> weather_manager \<Rightarrow> weather_manager" where
  "say m s = s\<lparr>stdout := stdout s @ [m]\<rparr>"

text \<open>The body of the \<open>try\<close> block: the manager as left, and the exception raised, if any.\<close>

definition fetch_try ::
  "env \<Rightarrow> string \<Rightarrow> string \<Rightarrow> string \<Rightarrow> string \<Rightarrow> string \<Rightarrow> weather_manager \<Rightarrow>
   weather_manager \<times> error option"
where
  "fetch_try e key city state country un s =
     (case http_geo e city state country key of
        Inl x \<Rightarrow> (s, Some x)
      | Inr geo_data \<Rightarrow>
          if \<not> truthy geo_data then (say (NoCoordinates city state) s, None)
          else
            (case bind_err (getitem0 geo_data) (\<lambda>g. getitem g ''lat'') of
               Inl x \<Rightarrow> (s, Some x)
             | Inr lat \<Rightarrow>
                 (case bind_err (getitem0 geo_data) (\<lambda>g. getitem g ''lon'') of
                    Inl x \<Rightarrow> (s, Some x)
                  | Inr lon \<Rightarrow>
                      (case http_weather e lat lon key un of
                         Inl x \<Rightarrow> (s, Some x)
                       | Inr w \<Rightarrow>
                           (case http_forecast e lat lon key un of
                              Inl x \<Rightarrow> (s\<lparr>weather_data := w\<rparr>, Some x)
                            | Inr f \<Rightarrow>
                                (case process_forecast_data e f
                                        (s\<lparr>weather_data := w, forecast_data := f\<rparr>) of
                                   (s', Some x) \<Rightarrow> (s', Some x)
                                 | (s', None) \<Rightarrow>
                                     (say Updated (s'\<lparr>last_update := time_fetch e\<rparr>), None)))))))"

text \<open>
  The whole method; entering it is counted in \<open>fetches\<close>. The three reads of
  \<open>self.location\<close> stand before the \<open>try\<close>: a missing key raises KeyError to the
  caller. Every exception of the \<open>try\<close> block is caught, printed, and clears
  \<open>weather_data\<close> and \<open>forecast_data\<close>.
\<close>

definition fetch_weather :: "env \<Rightarrow> weather_manager \<Rightarrow> weather_manager \<times> error option" where
  "fetch_weather e s0 =
     (let s = s0\<lparr>fetches := fetches s0 + 1\<rparr> in
      case api_key s of
        None \<Rightarrow> (say NoApiKey s, None)
      | Some key \<Rightarrow>
          if key = [] then (say NoApiKey s, None)
          else
            (case map_of (location s) ''city'' of
               None \<Rightarrow> (s, Some KeyError)
             | Some city \<Rightarrow>
                 (case map_of (location s) ''state'' of
                    None \<Rightarrow> (s, Some KeyError)
                  | Some state \<Rightarrow>
                      (case map_of (location s) ''country'' of
                         None \<Rightarrow> (s, Some KeyError)
                       | Some country \<Rightarrow>
                           (case fetch_try e key city state country
                                   (case units s of None \<Rightarrow> ''imperial'' | Some u \<Rightarrow> u) s of
                              (s', Some x) \<Rightarrow>
                                ((say (FetchError x) s')
                                   \<lparr>weather_data := JNull, forecast_data := JNull\<rparr>, None)
                            | (s', None) \<Rightarrow> (s', None))))))"

text \<open>
  \<open>get_weather\<close> returns \<open>self.weather_data\<close>; \<open>needs_fetch\<close> is the condition of its
  \<open>if\<close>.
\<close>

definition needs_fetch :: "env \<Rightarrow> weather_manager \<Rightarrow> bool" where
  "needs_fetch e s =
     (\<not> truthy (weather_data s) \<or>
      (case update_interval s of None \<Rightarrow> 300 | Some i \<Rightarrow> i) < time_get e - last_update s)"

definition get_weather ::
  "env \<Rightarrow> weather_manager \<Rightarrow> weather_manager \<times> (error + json)"
where
  "get_weather e s =
     (if needs_fetch e s then
        (case fetch_weather e s of
           (s', Some x) \<Rightarrow> (s', Inl x)
         | (s', None) \<Rightarrow> (s', Inr (weather_data s')))
      else (s, Inr (weather_data s)))"

subsection \<open>The display methods\<close>

text \<open>
  The calls of a method reach the display manager one after the other; the first that
  raises ends the method, and the calls before it have taken effect.
\<close>

fun run_calls ::
  "(dm_call \<Rightarrow> error option) \<Rightarrow> dm_call list \<Rightarrow> dm_call list \<Rightarrow> dm_call list \<times> error option"
where
  "run_calls d [] seen = (seen, None)"
| "run_calls d (c # cs) seen =
     (case d c of
        Some x \<Rightarrow> (seen, Some x)
      | None \<Rightarrow> run_calls d cs (seen @ [c]))"

text \<open>\<open>_prepare_display\<close>.\<close>

definition prepare_display :: "bool \<Rightarrow> int \<Rightarrow> int \<Rightarrow> dm_call list" where
  "prepare_display force_clear w h = (if force_clear then [Clear] else []) @ [NewImage w h]"

text \<open>
  The three values \<open>display_weather\<close> reads from the payload, in the order it reads them:
  the rounded temperature, the condition and the humidity. The payload has the shape of a
  forecast item for the first two: \<open>weather_data['main']['temp']\<close> and
  \<open>weather_data['weather'][0]['main']\<close>.
\<close>

definition weather_fields :: "json \<Rightarrow> error + int \<times> json \<times> json" where
  "weather_fields weather =
     bind_err (item_temp weather) (\<lambda>t.
     bind_err (round_json t) (\<lambda>temp.
     bind_err (item_condition weather) (\<lambda>condition.
     bind_err (getitem weather ''main'') (\<lambda>m.
     bind_err (getitem m ''humidity'') (\<lambda>humidity.
     Inr (temp, condition, humidity))))))"

text \<open>
  The condition of the \<open>if\<close> of \<open>display_weather\<close>:
  \<open>force_clear or not hasattr(self, 'last_temp') or temp != self.last_temp or
  condition != self.last_condition\<close>, evaluated from left to right.
\<close>

definition redraw_needed :: "bool \<Rightarrow> int \<Rightarrow> json \<Rightarrow> weather_manager \<Rightarrow> error + bool" where
  "redraw_needed force_clear temp condition s =
     (if force_clear then Inr True
      else
        (case last_temp s of
           None \<Rightarrow> Inr True
         | Some lt \<Rightarrow>
             if temp \<noteq> lt then Inr True
             else
               (case last_condition s of
                  None \<Rightarrow> Inl AttributeError
                | Some lc \<Rightarrow> Inr (condition \<noteq> lc))))"

text \<open>What \<open>display_weather\<close> draws.\<close>

definition weather_calls :: "bool \<Rightarrow> int \<Rightarrow> int \<Rightarrow> int \<Rightarrow> json \<Rightarrow> json \<Rightarrow> dm_call list" where
  "weather_calls force_clear w h temp condition humidity =
     prepare_display force_clear w h @
     [DrawText (Degrees temp) (Some (w div 4)) (h div 2 - 4) COLORS_highlight False,
      DrawWeatherIcon condition (w * 3 div 4 - ICON_SIZE_large div 2)
        (h div 2 - ICON_SIZE_large div 2) ICON_SIZE_large,
      DrawText (Humidity humidity) (Some PADDING) (h - 8) COLORS_text True,
      UpdateDisplay]"

definition display_weather :: "bool \<Rightarrow> env \<Rightarrow> weather_manager \<Rightarrow> weather_manager \<times> error option" where
  "display_weather force_clear e s =
     (case get_weather e s of
        (s1, Inl x) \<Rightarrow> (s1, Some x)
      | (s1, Inr weather) \<Rightarrow>
          if \<not> truthy weather then (s1, None)
          else
            (case weather_fields weather of
               Inl x \<Rightarrow> (s1, Some x)
             | Inr (temp, condition, humidity) \<Rightarrow>
                 (case redraw_needed force_clear temp condition s1 of
                    Inl x \<Rightarrow> (s1, Some x)
                  | Inr False \<Rightarrow> (s1, None)
                  | Inr True \<Rightarrow>
                      (case run_calls (dm e)
                              (weather_calls force_clear (width e) (height e) temp condition humidity)
                              (screen s1) of
                         (sc, Some x) \<Rightarrow> (s1\<lparr>screen := sc\<rparr>, Some x)
                       | (sc, None) \<Rightarrow>
                           (s1\<lparr>screen := sc, last_temp := Some temp,
                               last_condition := Some condition\<rparr>, None)))))"

text \<open>One column of the hourly view: the body of the loop over \<open>enumerate(self.hourly_forecast)\<close>.\<close>

definition hourly_column :: "int \<Rightarrow> int \<Rightarrow> int \<Rightarrow> int \<Rightarrow> int \<times> hourly_entry \<Rightarrow> dm_call list" where
  "hourly_column w h scroll_position n p =
     (case p of (i, forecast) \<Rightarrow>
        if w - scroll_position + i * (w div 2) < - (w div 2) \<or> w < w - scroll_position + i * (w div 2)
        then []
        else
          [DrawText (Plain (h_hour forecast))
             (Some (w - scroll_position + i * (w div 2) + w div 2 div 2)) 10 COLORS_text True,
           DrawWeatherIcon (h_condition forecast)
             (w - scroll_position + i * (w div 2) + (w div 2 - ICON_SIZE_medium) div 2) 14
             ICON_SIZE_medium,
           DrawText (Degrees (h_temp forecast))
             (Some (w - scroll_position + i * (w div 2) + w div 2 div 2)) (h - 8) COLORS_text True] @
          (if i < n - 1 \<and> 0 \<le> w - scroll_position + i * (w div 2) + w div 2 - 1 \<and>
              w - scroll_position + i * (w div 2) + w div 2 - 1 \<le> w
           then [DrawLine (w - scroll_position + i * (w div 2) + w div 2 - 1, 8)
                   (w - scroll_position + i * (w div 2) + w div 2 - 1, h) COLORS_separator]
           else []))"

definition enumerate_from0 :: "'a list \<Rightarrow> (int \<times> 'a) list" where
  "enumerate_from0 xs = zip (map int [0..<length xs]) xs"

definition hourly_calls :: "bool \<Rightarrow> int \<Rightarrow> int \<Rightarrow> int \<Rightarrow> hourly_entry list \<Rightarrow> dm_call list" where
  "hourly_calls force_clear w h scroll_position fc =
     prepare_display force_clear w h @
     [DrawText (Plain ''HOURLY'') None 1 COLORS_highlight True,
      DrawLine (0, 8) (w, 8) COLORS_separator] @
     concat (map (hourly_column w h scroll_position (int (length fc))) (enumerate_from0 fc)) @
     [UpdateDisplay]"

text \<open>
  \<open>display_hourly_forecast\<close> from the reading of the clock on: the frame gate, the
  drawing, and the new \<open>last_draw_time\<close>.
\<close>

definition draw_hourly :: "int \<Rightarrow> bool \<Rightarrow> env \<Rightarrow> weather_manager \<Rightarrow> weather_manager \<times> error option" where
  "draw_hourly scroll_position force_clear e s =
     (if \<not> force_clear \<and> time_draw e - last_draw_time s < 1 / 10 then (s, None)
      else
        (case hourly_forecast s of
           None \<Rightarrow> (s, Some TypeError)
         | Some fc \<Rightarrow>
             (case run_calls (dm e) (hourly_calls force_clear (width e) (height e) scroll_position fc)
                     (screen s) of
                (sc, Some x) \<Rightarrow> (s\<lparr>screen := sc\<rparr>, Some x)
              | (sc, None) \<Rightarrow> (s\<lparr>screen := sc, last_draw_time := time_draw e\<rparr>, None))))"

definition display_hourly_forecast ::
  "int \<Rightarrow> bool \<Rightarrow> env \<Rightarrow> weather_manager \<Rightarrow> weather_manager \<times> error option"
where
  "display_hourly_forecast scroll_position force_clear e s =
     (if \<not> truthy_list (hourly_forecast s) then
        (case get_weather e s of
           (s1, Inl x) \<Rightarrow> (s1, Some x)
         | (s1, Inr w) \<Rightarrow>
             if \<not> truthy_list (hourly_forecast s1) then (s1, None)
             else draw_hourly scroll_position force_clear e s1)
      else draw_hourly scroll_position force_clear e s)"

text \<open>\<open>str.upper\<close> on ASCII letters, for the day names.\<close>

definition upper_char :: "char \<Rightarrow> char" where
  "upper_char c =
     (case map_of (zip ''abcdefghijklmnopqrstuvwxyz'' ''ABCDEFGHIJKLMNOPQRSTUVWXYZ'') c of
        None \<Rightarrow> c
      | Some u \<Rightarrow> u)"

text \<open>One column of the daily view: the body of the loop over \<open>enumerate(self.daily_forecast)\<close>.\<close>

definition daily_column :: "int \<Rightarrow> int \<Rightarrow> int \<Rightarrow> int \<times> daily_entry \<Rightarrow> dm_call list" where
  "daily_column w h n p =
     (case p of (i, day_entry) \<Rightarrow>
        [DrawText (Plain (map upper_char (d_date day_entry)))
           (Some (i * (w div 3) + w div 3 div 2)) 10 COLORS_text True,
         DrawWeatherIcon (d_condition day_entry)
           (i * (w div 3) + (w div 3 - ICON_SIZE_medium) div 2) 14 ICON_SIZE_medium,
         DrawText (Degrees (d_temp_low day_entry))
           (Some (i * (w div 3) + w div 3 div 3)) (h - 8) COLORS_temp_low True,
         DrawText (Degrees (d_temp_high day_entry))
           (Some (i * (w div 3) + 2 * (w div 3) div 3)) (h - 8) COLORS_temp_high True] @
        (if i < n - 1
         then [DrawLine (i * (w div 3) + w div 3 - 1, 8) (i * (w div 3) + w div 3 - 1, h)
                 COLORS_separator]
         else []))"

definition daily_calls :: "bool \<Rightarrow> int \<Rightarrow> int \<Rightarrow> daily_entry list \<Rightarrow> dm_call list" where
  "daily_calls force_clear w h fc =
     prepare_display force_clear w h @
     [DrawText (Plain ''3-DAY FORECAST'') None 1 COLORS_highlight True,
      DrawLine (0, 8) (w, 8) COLORS_separator] @
     concat (map (daily_column w h (int (length fc))) (enumerate_from0 fc)) @
     [UpdateDisplay]"

definition draw_daily :: "bool \<Rightarrow> env \<Rightarrow> weather_manager \<Rightarrow> weather_manager \<times> error option" where
  "draw_daily force_clear e s =
     (if \<not> force_clear \<and> time_draw e - last_draw_time s < 1 / 10 then (s, None)
      else
        (case daily_forecast s of
           None \<Rightarrow> (s, Some TypeError)
         | Some fc \<Rightarrow>
             (case run_calls (dm e) (daily_calls force_clear (width e) (height e) fc) (screen s) of
                (sc, Some x) \<Rightarrow> (s\<lparr>screen := sc\<rparr>, Some x)
              | (sc, None) \<Rightarrow> (s\<lparr>screen := sc, last_draw_time := time_draw e\<rparr>, None))))"

definition display_daily_forecast ::
  "bool \<Rightarrow> env \<Rightarrow> weather_manager \<Rightarrow> weather_manager \<times> error option"
where
  "display_daily_forecast force_clear e s =
     (if \<not> truthy_list (daily_forecast s) then
        (case get_weather e s of
           (s1, Inl x) \<Rightarrow> (s1, Some x)
         | (s1, Inr w) \<Rightarrow>
             if \<not> truthy_list (daily_forecast s1) then (s1, None)
             else draw_daily force_clear e s1)
      else draw_daily force_clear e s)"

section \<open>Well-formed forecast items\<close>

text \<open>
  An item is well formed when the first loop can read it (a numeric timestamp that the
  clock accepts, a numeric temperature, a condition) and its condition is hashable. A
  group of the second loop is good when it holds at least one temperature, all of them
  numbers, and at least one condition, all of them hashable.
\<close>

fun is_number :: "json \<Rightarrow> bool" where
  "is_number (JNum x) = True"
| "is_number v = False"

definition well_formed :: "(real \<Rightarrow> error + datetime) \<Rightarrow> json \<Rightarrow> bool" where
  "well_formed tz item =
     (\<not> isl (hourly_item tz item) \<and>
      (case item_condition item of Inl x \<Rightarrow> False | Inr c \<Rightarrow> hashable c))"

definition good_group :: "day_group \<Rightarrow> bool" where
  "good_group g =
     (temps g \<noteq> [] \<and> list_all is_number (temps g) \<and>
      conditions g \<noteq> [] \<and> list_all hashable (conditions g))"

section \<open>Concrete managers, payloads and surroundings\<close>

text \<open>\<open>__init__\<close>: the manager as constructed from a configuration.\<close>

definition init ::
  "string option \<Rightarrow> string option \<Rightarrow> real option \<Rightarrow> (string \<times> string) list \<Rightarrow> weather_manager"
where
  "init key un interval loc =
     \<lparr> api_key = key, units = un, update_interval = interval, location = loc,
       last_update = 0, weather_data = JNull, forecast_data = JNull,
       hourly_forecast = None, daily_forecast = None, last_draw_time = 0,
       last_temp = None, last_condition = None, stdout = [], screen = [], fetches = 0 \<rparr>"

definition tampa :: weather_manager where
  "tampa = init (Some ''k3y'') None None
     [(''city'', ''Tampa''), (''state'', ''FL''), (''country'', ''US'')]"

text \<open>
  A forecast item with the three entries the manager reads, and a forecast payload around
  a list of items, as OpenWeatherMap sends them.
\<close>

definition sample :: "real \<Rightarrow> real \<Rightarrow> string \<Rightarrow> json" where
  "sample t temp cond =
     JObj (fmap_of_list
       [(''dt'', JNum t),
        (''main'', JObj (fmap_of_list [(''temp'', JNum temp)])),
        (''weather'', JArr [JObj (fmap_of_list [(''main'', JStr cond)])])])"

definition forecast_payload :: "json list \<Rightarrow> json" where
  "forecast_payload xs = JObj (fmap_of_list [(''cod'', JStr ''200''), (''list'', JArr xs)])"

text \<open>
  Surroundings with a UTC clock, a \<open>set\<close> that iterates as \<open>remdups\<close> lists it, no
  network, and a display manager that accepts every call on a 128 by 32 matrix.
\<close>

definition offline :: "error + json" where
  "offline = Inl ConnectionError"

definition utc_env :: env where
  "utc_env =
     \<lparr> fromtimestamp = utc_fromtimestamp, set_iter = remdups,
       http_geo = (\<lambda>city state country key. offline),
       http_weather = (\<lambda>lat lon key un. offline),
       http_forecast = (\<lambda>lat lon key un. offline),
       time_get = 0, time_fetch = 0, time_draw = 0,
       dm = (\<lambda>c. None), width = 128, height = 32 \<rparr>"

text \<open>
  Seven items three hours apart from 2024-04-08 09:00 UTC, and the groups of the first six
  by date.
\<close>

definition from_9am :: "json list" where
  "from_9am =
     [sample 1712566800 (723 / 10) ''Clouds'',
      sample 1712577600 (145 / 2) ''Clouds'',
      sample 1712588400 (147 / 2) ''Clear'',
      sample 1712599200 71 ''Clear'',
      sample 1712610000 (-5 / 2) ''Rain'',
      sample 1712620800 (689 / 10) ''Rain'',
      sample 1712631600 68 ''Rain'']"

definition from_9am_hours :: "hourly_entry list" where
  "from_9am_hours =
     [\<lparr>h_hour = ''9AM'', h_temp = 72, h_condition = JStr ''Clouds''\<rparr>,
      \<lparr>h_hour = ''12PM'', h_temp = 72, h_condition = JStr ''Clouds''\<rparr>,
      \<lparr>h_hour = ''3PM'', h_temp = 74, h_condition = JStr ''Clear''\<rparr>,
      \<lparr>h_hour = ''6PM'', h_temp = 71, h_condition = JStr ''Clear''\<rparr>,
      \<lparr>h_hour = ''9PM'', h_temp = -2, h_condition = JStr ''Rain''\<rparr>,
      \<lparr>h_hour = ''12AM'', h_temp = 69, h_condition = JStr ''Rain''\<rparr>]"

definition from_9am_groups :: "(string \<times> day_group) list" where
  "from_9am_groups =
     [(''2024-04-08'',
       \<lparr>temps = [JNum (723 / 10), JNum (145 / 2), JNum (147 / 2), JNum 71, JNum (-5 / 2)],
        conditions = [JStr ''Clouds'', JStr ''Clouds'', JStr ''Clear'', JStr ''Clear'', JStr ''Rain''],
        date = \<lparr>year = 2024, month = 4, day = 8, hour = 9, minute = 0, second = 0\<rparr>\<rparr>),
      (''2024-04-09'',
       \<lparr>temps = [JNum (689 / 10)], conditions = [JStr ''Rain''],
        date = \<lparr>year = 2024, month = 4, day = 9, hour = 0, minute = 0, second = 0\<rparr>\<rparr>)]"

definition from_9am_days :: "daily_entry list" where
  "from_9am_days =
     [\<lparr>d_date = ''Mon'', d_date_str = ''04/08'', d_temp_high = 74, d_temp_low = -2,
        d_condition = JStr ''Clouds''\<rparr>,
      \<lparr>d_date = ''Tue'', d_date_str = ''04/09'', d_temp_high = 69, d_temp_low = 69,
        d_condition = JStr ''Rain''\<rparr>]"

text \<open>
  Two items of one date with one condition each, and surroundings in which a \<open>set\<close>
  iterates the other way round.
\<close>

definition tie :: "json list" where
  "tie = [sample 1712566800 70 ''Rain'', sample 1712577600 72 ''Clear'']"

definition rev_env :: env where
  "rev_env = utc_env\<lparr>set_iter := (\<lambda>xs. rev (remdups xs))\<rparr>"

text \<open>An item without \<open>dt\<close> after a well-formed one.\<close>

definition no_dt :: json where
  "no_dt = JObj (fmap_of_list [(''main'', JObj (fmap_of_list [(''temp'', JNum 70)]))])"

definition broken :: "json list" where
  "broken = [sample 1712566800 70 ''Rain'', no_dt]"

text \<open>
  Ten items three hours apart from 2024-04-08 21:00 UTC: one of April 8, eight of April 9
  and one of April 10.
\<close>

definition from_9pm :: "json list" where
  "from_9pm =
     [sample 1712610000 61 ''Clear'',
      sample 1712620800 60 ''Clear'',
      sample 1712631600 59 ''Clouds'',
      sample 1712642400 58 ''Clouds'',
      sample 1712653200 63 ''Clouds'',
      sample 1712664000 70 ''Rain'',
      sample 1712674800 72 ''Rain'',
      sample 1712685600 69 ''Rain'',
      sample 1712696400 64 ''Clear'',
      sample 1712707200 62 ''Clear'']"

definition from_9pm_hours :: "hourly_entry list" where
  "from_9pm_hours =
     [\<lparr>h_hour = ''9PM'', h_temp = 61, h_condition = JStr ''Clear''\<rparr>,
      \<lparr>h_hour = ''12AM'', h_temp = 60, h_condition = JStr ''Clear''\<rparr>,
      \<lparr>h_hour = ''3AM'', h_temp = 59, h_condition = JStr ''Clouds''\<rparr>,
      \<lparr>h_hour = ''6AM'', h_temp = 58, h_condition = JStr ''Clouds''\<rparr>,
      \<lparr>h_hour = ''9AM'', h_temp = 63, h_condition = JStr ''Clouds''\<rparr>,
      \<lparr>h_hour = ''12PM'', h_temp = 70, h_condition = JStr ''Rain''\<rparr>]"

definition from_9pm_groups :: "(string \<times> day_group) list" where
  "from_9pm_groups =
     [(''2024-04-08'',
       \<lparr>temps = [JNum 61], conditions = [JStr ''Clear''],
        date = \<lparr>year = 2024, month = 4, day = 8, hour = 21, minute = 0, second = 0\<rparr>\<rparr>),
      (''2024-04-09'',
       \<lparr>temps = [JNum 60, JNum 59, JNum 58, JNum 63, JNum 70],
        conditions = [JStr ''Clear'', JStr ''Clouds'', JStr ''Clouds'', JStr ''Clouds'', JStr ''Rain''],
        date = \<lparr>year = 2024, month = 4, day = 9, hour = 0, minute = 0, second = 0\<rparr>\<rparr>)]"

definition from_9pm_days :: "daily_entry list" where
  "from_9pm_days =
     [\<lparr>d_date = ''Mon'', d_date_str = ''04/08'', d_temp_high = 61, d_temp_low = 61,
        d_condition = JStr ''Clear''\<rparr>,
      \<lparr>d_date = ''Tue'', d_date_str = ''04/09'', d_temp_high = 70, d_temp_low = 58,
        d_condition = JStr ''Clouds''\<rparr>]"

text \<open>
  A payload of current conditions, the answer of the geocoding request, surroundings in
  which the three requests succeed, and the manager after one successful fetch there.
\<close>

definition current :: "real \<Rightarrow> real \<Rightarrow> string \<Rightarrow> json" where
  "current temp hum cond =
     JObj (fmap_of_list
       [(''main'', JObj (fmap_of_list [(''temp'', JNum temp), (''humidity'', JNum hum)])),
        (''weather'', JArr [JObj (fmap_of_list [(''main'', JStr cond)])])])"

definition tampa_coords :: json where
  "tampa_coords =
     JArr [JObj (fmap_of_list [(''name'', JStr ''Tampa''), (''lat'', JNum (2795 / 100)),
                               (''lon'', JNum (-8246 / 100))])]"

definition online :: env where
  "online =
     utc_env\<lparr> http_geo := (\<lambda>city state country key. Inr tampa_coords),
              http_weather := (\<lambda>lat lon key un. Inr (current (724 / 10) 40 ''Clouds'')),
              http_forecast := (\<lambda>lat lon key un. Inr (forecast_payload from_9am)),
              time_get := 1000, time_fetch := 1001 \<rparr>"

definition cached :: weather_manager where
  "cached =
     tampa\<lparr> last_update := 1001, weather_data := current (724 / 10) 40 ''Clouds'',
             forecast_data := forecast_payload from_9am,
             hourly_forecast := Some from_9am_hours, daily_forecast := Some from_9am_days,
             stdout := [Updated], fetches := 1 \<rparr>"

text \<open>
  The manager after it has drawn the current conditions of that snapshot on a new screen;
  surroundings, later than the refresh interval, in which the current conditions come back
  with another humidity and a temperature that rounds to the same integer; and the
  manager after it has fetched there.
\<close>

definition drawn :: weather_manager where
  "drawn =
     cached\<lparr> screen := weather_calls False 128 32 72 (JStr ''Clouds'') (JNum 40),
              last_temp := Some 72, last_condition := Some (JStr ''Clouds'') \<rparr>"

definition online_later :: env where
  "online_later =
     online\<lparr> http_weather := (\<lambda>lat lon key un. Inr (current (721 / 10) 55 ''Clouds'')),
             time_get := 2000, time_fetch := 2001 \<rparr>"

definition refreshed :: weather_manager where
  "refreshed =
     drawn\<lparr> last_update := 2001, weather_data := current (721 / 10) 55 ''Clouds'',
             stdout := [Updated, Updated], fetches := 2 \<rparr>"

text \<open>
  Two readings of the clock 0.05 apart, and the manager after the hourly and after the
  daily view was drawn at the first of them.
\<close>

definition at_5 :: env where
  "at_5 = utc_env\<lparr>time_draw := 5\<rparr>"

definition soon_after :: env where
  "soon_after = utc_env\<lparr>time_draw := 101 / 20\<rparr>"

definition hourly_shown :: weather_manager where
  "hourly_shown =
     cached\<lparr>screen := hourly_calls False 128 32 0 from_9am_hours, last_draw_time := 5\<rparr>"

definition daily_shown :: weather_manager where
  "daily_shown =
     cached\<lparr>screen := daily_calls False 128 32 from_9am_days, last_draw_time := 5\<rparr>"

section \<open>Basic facts\<close>

lemma bind_err_Inr_iff:
  "bind_err m f = Inr y \<longleftrightarrow> (\<exists>x. m = Inr x \<and> f x = Inr y)"
  by (cases m) (simp_all add: bind_err_def)

lemma round_json_Inr: "round_json v = Inr n \<Longrightarrow> \<exists>x. v = JNum x \<and> n = py_round x"
  by (cases v) auto

lemma py_fromtimestamp_Inr:
  "py_fromtimestamp tz v = Inr dt \<Longrightarrow> \<exists>x. v = JNum x \<and> tz x = Inr dt"
  by (cases v) auto

lemma py_round_nearest: "\<bar>real_of_int (py_round x) - x\<bar> \<le> 1 / 2"
proof -
  have "real_of_int \<lfloor>x\<rfloor> \<le> x" and "x < real_of_int \<lfloor>x\<rfloor> + 1"
    by linarith+
  then show ?thesis
    by (auto simp: py_round_def Let_def)
qed

lemma hour12_range: "1 \<le> hour12 h \<and> hour12 h \<le> 12"
  by (simp add: hour12_def)

lemma lstrip0_pad2:
  assumes "1 \<le> n" and "n \<le> 12"
  shows "lstrip0 (pad2 n @ sfx) = show_nat n @ sfx \<and> hd (show_nat n @ sfx) \<noteq> CHR ''0''"
proof -
  from assms have "n \<in> {1, 2, 3, 4, 5, 6, 7, 8, 9, 10, 11, 12}"
    by auto arith
  then show ?thesis
    by (elim insertE emptyE) (simp_all add: lstrip0_def pad2_def show_nat.simps)
qed

lemma hourly_label:
  "lstrip0 (strftime_Ip dt) =
     show_nat (hour12 (hour dt)) @ (if hour dt < 12 then ''AM'' else ''PM'')"
  "hd (lstrip0 (strftime_Ip dt)) \<noteq> CHR ''0''"
  using lstrip0_pad2 [of "hour12 (hour dt)" "if hour dt < 12 then ''AM'' else ''PM''"]
    hour12_range [of "hour dt"]
  unfolding strftime_Ip_def by simp_all

lemma hourly_item_Inr:
  assumes "hourly_item tz x = Inr h"
  shows "\<exists>ts dt t. item_dt x = Inr (JNum ts) \<and> tz ts = Inr dt \<and>
           item_temp x = Inr (JNum t) \<and> h_temp h = py_round t \<and>
           item_condition x = Inr (h_condition h) \<and>
           h_hour h = lstrip0 (strftime_Ip dt)"
  using assms unfolding hourly_item_def item_datetime_def bind_err_Inr_iff
  by (auto dest!: round_json_Inr py_fromtimestamp_Inr)

lemma hourly_loop_ok:
  "list_all (\<lambda>x. \<not> isl (hourly_item tz x)) xs \<Longrightarrow>
   hourly_loop tz xs acc = (acc @ map (\<lambda>x. projr (hourly_item tz x)) xs, None)"
proof (induction xs arbitrary: acc)
  case Nil
  then show ?case by simp
next
  case (Cons x xs)
  then obtain h where "hourly_item tz x = Inr h"
    by (cases "hourly_item tz x") auto
  with Cons show ?case by simp
qed

lemma forecast_list_JArr:
  "getitem fd ''list'' = Inr (JArr samples) \<Longrightarrow> forecast_list fd = Inr (take 6 samples)"
  by (cases fd) (auto split: option.splits)

lemma process_hourly:
  assumes "truthy fd" and "forecast_list fd = Inr items"
      and "hourly_loop (fromtimestamp e) items [] = (hs, None)"
  shows "hourly_forecast (fst (process_forecast_data e fd s)) = Some hs"
  using assms by (simp add: process_forecast_data_def split: sum.splits prod.splits option.splits)

lemma process_forecast_data_steps:
  assumes "truthy fd" and "forecast_list fd = Inr items"
      and "hourly_loop (fromtimestamp e) items [] = (hs, None)"
      and "daily_groups (fromtimestamp e) items [] = Inr dd"
      and "summary_loop (set_iter e) (take 3 dd) [] = (ds, r)"
  shows "process_forecast_data e fd s =
           (s\<lparr>hourly_forecast := Some hs, daily_forecast := Some ds\<rparr>, r)"
  using assms by (simp add: process_forecast_data_def)

lemma max_by_split:
  "\<exists>pre post. b # xs = pre @ max_by key b xs # post \<and>
     (\<forall>y\<in>set pre. key y < key (max_by key b xs)) \<and>
     (\<forall>y\<in>set post. key y \<le> key (max_by key b xs))"
proof (induction xs arbitrary: b)
  case Nil
  show ?case by (rule exI [of _ "[]"]) simp
next
  case (Cons y ys)
  show ?case
  proof (cases "key b < key y")
    case True
    then have step: "max_by key b (y # ys) = max_by key y ys"
      by simp
    from Cons [of y] obtain pre post where
      sp: "y # ys = pre @ max_by key y ys # post"
      and lt: "\<forall>z\<in>set pre. key z < key (max_by key y ys)"
      and le: "\<forall>z\<in>set post. key z \<le> key (max_by key y ys)"
      by blast
    have "y \<in> set (pre @ max_by key y ys # post)"
      using sp by (metis list.set_intros(1))
    then have "key y \<le> key (max_by key y ys)"
      using lt le by auto
    with True lt have lt': "\<forall>z\<in>set (b # pre). key z < key (max_by key y ys)"
      by simp
    have "b # y # ys = (b # pre) @ max_by key y ys # post"
      using sp by simp
    with lt' le show ?thesis
      unfolding step by blast
  next
    case False
    then have step: "max_by key b (y # ys) = max_by key b ys"
      by simp
    from Cons [of b] obtain pre post where
      sp: "b # ys = pre @ max_by key b ys # post"
      and lt: "\<forall>z\<in>set pre. key z < key (max_by key b ys)"
      and le: "\<forall>z\<in>set post. key z \<le> key (max_by key b ys)"
      by blast
    show ?thesis
    proof (cases pre)
      case Nil
      from sp [unfolded Nil append_Nil] have m: "max_by key b ys = b" and post: "post = ys"
        by (metis list.inject)+
      from False m post le have le': "\<forall>z\<in>set (y # ys). key z \<le> key (max_by key b ys)"
        by simp
      have "b # y # ys = [] @ max_by key b ys # y # ys"
        using m by simp
      with le' show ?thesis
        unfolding step by (metis empty_iff empty_set)
    next
      case (Cons p pre')
      from sp [unfolded Cons append_Cons] have p: "p = b"
        and rest: "ys = pre' @ max_by key b ys # post"
        by (metis list.inject)+
      from lt Cons p have "key b < key (max_by key b ys)"
        by simp
      with False lt Cons p have lt': "\<forall>z\<in>set (b # y # pre'). key z < key (max_by key b ys)"
        by simp
      have "b # y # ys = (b # y # pre') @ max_by key b ys # post"
        using rest by simp
      with lt' le show ?thesis
        unfolding step by blast
    qed
  qed
qed

lemma dominant_Inr:
  assumes "dominant si conds = Inr c"
  shows "\<exists>pre post. si conds = pre @ c # post \<and>
           (\<forall>y\<in>set pre. count_list conds y < count_list conds c) \<and>
           (\<forall>y\<in>set post. count_list conds y \<le> count_list conds c)"
proof -
  from assms obtain x xs where si: "si conds = x # xs" and c: "c = max_by (count_list conds) x xs"
    by (auto simp: dominant_def split: if_splits list.splits)
  from max_by_split [of x xs "count_list conds"] show ?thesis
    unfolding si c by blast
qed

lemma numbers_ok:
  "list_all is_number vs \<Longrightarrow> \<exists>xs. numbers vs = Inr xs \<and> length xs = length vs"
proof (induction vs)
  case Nil
  show ?case by simp
next
  case (Cons v vs)
  then obtain x where "v = JNum x" by (cases v) auto
  with Cons show ?case by (auto simp: bind_err_def)
qed

lemma round_max_min_ok:
  assumes "temps g \<noteq> []" and "list_all is_number (temps g)"
  shows "\<not> isl (round_max (temps g))" and "\<not> isl (round_min (temps g))"
proof -
  from numbers_ok [OF assms(2)] obtain xs where "numbers (temps g) = Inr xs" "length xs = length (temps g)"
    by blast
  with assms(1) obtain y ys where "numbers (temps g) = Inr (y # ys)"
    by (cases xs) auto
  then show "\<not> isl (round_max (temps g))" and "\<not> isl (round_min (temps g))"
    by (simp_all add: round_max_def round_min_def bind_err_def)
qed

lemma daily_summary_ok:
  assumes "good_group g" and "set (si (conditions g)) = set (conditions g)"
  shows "\<not> isl (daily_summary si g)"
proof -
  from assms(1) have t: "temps g \<noteq> []" "list_all is_number (temps g)"
    and c: "conditions g \<noteq> []" "list_all hashable (conditions g)"
    by (simp_all add: good_group_def)
  from round_max_min_ok [OF t] obtain hi lo where
    "round_max (temps g) = Inr hi" "round_min (temps g) = Inr lo"
    by (cases "round_max (temps g)"; cases "round_min (temps g)") auto
  moreover from c(1) assms(2) have "si (conditions g) \<noteq> []"
    by (metis set_empty)
  then obtain x xs where "si (conditions g) = x # xs"
    by (cases "si (conditions g)") auto
  ultimately show ?thesis
    using c(2) by (simp add: daily_summary_def dominant_def bind_err_def)
qed

lemma summary_loop_ok:
  assumes "\<forall>kg\<in>set gs. good_group (snd kg)" and "\<forall>cs. set (si cs) = set cs"
  shows "\<exists>ds. summary_loop si gs acc = (acc @ ds, None) \<and> length ds = length gs"
  using assms(1)
proof (induction gs arbitrary: acc)
  case Nil
  show ?case by simp
next
  case (Cons kg gs)
  then have "good_group (snd kg)" by simp
  from daily_summary_ok [OF this, of si] assms(2) obtain d where d: "daily_summary si (snd kg) = Inr d"
    by (cases "daily_summary si (snd kg)") auto
  from Cons obtain ds where "summary_loop si gs (acc @ [d]) = ((acc @ [d]) @ ds, None)"
    and "length ds = length gs"
    by (metis list.set_intros(2))
  with d show ?case
    by - (rule exI [of _ "d # ds"], simp)
qed

lemma well_formed_reads:
  assumes "well_formed tz x"
  obtains dt t c where "item_datetime tz x = Inr dt" "item_date tz x = Inr (strftime_Ymd dt)"
    "item_temp x = Inr (JNum t)" "item_condition x = Inr c" "hashable c"
proof -
  from assms obtain h where h: "hourly_item tz x = Inr h"
    by (cases "hourly_item tz x") (auto simp: well_formed_def)
  then obtain dt t c where r: "item_datetime tz x = Inr dt" "item_temp x = Inr t"
    "round_json t = Inr (h_temp h)" "item_condition x = Inr c"
    unfolding hourly_item_def bind_err_Inr_iff by auto
  from r(3) obtain v where "t = JNum v" by (cases t) auto
  moreover from assms r(4) have "hashable c" by (simp add: well_formed_def)
  ultimately show ?thesis
    using that r by (simp add: item_date_def bind_err_def)
qed

lemma upd_group_all:
  "(\<forall>kg\<in>set (upd_group k f dd). Q kg) \<longleftrightarrow>
   (\<forall>kg\<in>set dd. Q (if fst kg = k then (fst kg, f (snd kg)) else kg))"
  by (induction dd) (auto simp: upd_group_def)

lemma daily_item_ok:
  assumes "well_formed tz x" and "\<forall>kg\<in>set dd. good_group (snd kg)"
  shows "\<exists>dd'. daily_item tz x dd = Inr dd' \<and> (\<forall>kg\<in>set dd'. good_group (snd kg))"
proof -
  from assms(1) obtain dt t c where r: "item_datetime tz x = Inr dt"
    "item_date tz x = Inr (strftime_Ymd dt)" "item_temp x = Inr (JNum t)"
    "item_condition x = Inr c" "hashable c"
    by (rule well_formed_reads)
  with assms(2) show ?thesis
    by (auto simp: daily_item_def bind_err_def upd_group_all good_group_def)
qed

lemma daily_groups_ok:
  assumes "list_all (well_formed tz) xs" and "\<forall>kg\<in>set dd. good_group (snd kg)"
  shows "\<exists>dd'. daily_groups tz xs dd = Inr dd' \<and> (\<forall>kg\<in>set dd'. good_group (snd kg))"
  using assms
proof (induction xs arbitrary: dd)
  case Nil
  then show ?case by simp
next
  case (Cons x xs)
  then have "well_formed tz x" by simp
  from daily_item_ok [OF this Cons.prems(2)] obtain dd1 where
    "daily_item tz x dd = Inr dd1" "\<forall>kg\<in>set dd1. good_group (snd kg)"
    by blast
  with Cons show ?case by (simp add: bind_err_def)
qed

subsection \<open>Running the model on the concrete payloads\<close>

lemma utc_clock:
  "utc_fromtimestamp 1712566800 =
     Inr \<lparr>year = 2024, month = 4, day = 8, hour = 9, minute = 0, second = 0\<rparr>"
  "utc_fromtimestamp 1712577600 =
     Inr \<lparr>year = 2024, month = 4, day = 8, hour = 12, minute = 0, second = 0\<rparr>"
  "utc_fromtimestamp 1712588400 =
     Inr \<lparr>year = 2024, month = 4, day = 8, hour = 15, minute = 0, second = 0\<rparr>"
  "utc_fromtimestamp 1712599200 =
     Inr \<lparr>year = 2024, month = 4, day = 8, hour = 18, minute = 0, second = 0\<rparr>"
  "utc_fromtimestamp 1712610000 =
     Inr \<lparr>year = 2024, month = 4, day = 8, hour = 21, minute = 0, second = 0\<rparr>"
  "utc_fromtimestamp 1712620800 =
     Inr \<lparr>year = 2024, month = 4, day = 9, hour = 0, minute = 0, second = 0\<rparr>"
  "utc_fromtimestamp 1712631600 =
     Inr \<lparr>year = 2024, month = 4, day = 9, hour = 3, minute = 0, second = 0\<rparr>"
  "utc_fromtimestamp 1712642400 =
     Inr \<lparr>year = 2024, month = 4, day = 9, hour = 6, minute = 0, second = 0\<rparr>"
  "utc_fromtimestamp 1712653200 =
     Inr \<lparr>year = 2024, month = 4, day = 9, hour = 9, minute = 0, second = 0\<rparr>"
  "utc_fromtimestamp 1712664000 =
     Inr \<lparr>year = 2024, month = 4, day = 9, hour = 12, minute = 0, second = 0\<rparr>"
  "utc_fromtimestamp 1712674800 =
     Inr \<lparr>year = 2024, month = 4, day = 9, hour = 15, minute = 0, second = 0\<rparr>"
  "utc_fromtimestamp 1712685600 =
     Inr \<lparr>year = 2024, month = 4, day = 9, hour = 18, minute = 0, second = 0\<rparr>"
  "utc_fromtimestamp 1712696400 =
     Inr \<lparr>year = 2024, month = 4, day = 9, hour = 21, minute = 0, second = 0\<rparr>"
  "utc_fromtimestamp 1712707200 =
     Inr \<lparr>year = 2024, month = 4, day = 10, hour = 0, minute = 0, second = 0\<rparr>"
  by code_simp+

lemma utc_env_fields:
  "fromtimestamp utc_env = utc_fromtimestamp"
  "set_iter utc_env = remdups"
  by (simp_all add: utc_env_def)

lemma tampa_fields:
  "api_key tampa = Some ''k3y''"
  "units tampa = None"
  "update_interval tampa = None"
  "location tampa = [(''city'', ''Tampa''), (''state'', ''FL''), (''country'', ''US'')]"
  "last_update tampa = 0"
  "weather_data tampa = JNull"
  "forecast_data tampa = JNull"
  "hourly_forecast tampa = None"
  "daily_forecast tampa = None"
  "last_draw_time tampa = 0"
  "last_temp tampa = None"
  "last_condition tampa = None"
  "stdout tampa = []"
  "screen tampa = []"
  "fetches tampa = 0"
  by (simp_all add: tampa_def init_def)

lemma sample_reads:
  "item_dt (sample t x c) = Inr (JNum t)"
  "item_temp (sample t x c) = Inr (JNum x)"
  "item_condition (sample t x c) = Inr (JStr c)"
  "item_datetime tz (sample t x c) = tz t"
  "item_date tz (sample t x c) = bind_err (tz t) (\<lambda>dt. Inr (strftime_Ymd dt))"
  by (simp_all add: sample_def item_dt_def item_temp_def item_condition_def item_datetime_def
        item_date_def bind_err_def)

lemma hourly_item_sample:
  "hourly_item tz (sample t x c) =
     bind_err (tz t)
       (\<lambda>dt. Inr \<lparr>h_hour = lstrip0 (strftime_Ip dt), h_temp = py_round x, h_condition = JStr c\<rparr>)"
  by (simp add: hourly_item_def sample_reads bind_err_def)

lemma daily_item_sample:
  "daily_item tz (sample t x c) dd =
     bind_err (tz t) (\<lambda>dt.
       Inr (upd_group (strftime_Ymd dt) (\<lambda>g. g\<lparr>conditions := conditions g @ [JStr c]\<rparr>)
         (upd_group (strftime_Ymd dt) (\<lambda>g. g\<lparr>temps := temps g @ [JNum x]\<rparr>)
           (if strftime_Ymd dt \<in> set (map fst dd) then dd
            else dd @ [(strftime_Ymd dt, \<lparr>temps = [], conditions = [], date = dt\<rparr>)]))))"
  by (cases "tz t") (simp_all add: daily_item_def sample_reads bind_err_def)

lemmas strftime_eval =
  lstrip0_def strftime_Ip_def strftime_Ymd_def strftime_md_def strftime_a_def pad2_def
  hour12_def show_nat.simps weekday_def days_from_civil_def

lemma forecast_payload_reads:
  "truthy (forecast_payload xs)"
  "getitem (forecast_payload xs) ''list'' = Inr (JArr xs)"
  "forecast_list (forecast_payload xs) = Inr (take 6 xs)"
  by (simp_all add: forecast_payload_def)

lemma from_9am_hourly:
  "hourly_loop utc_fromtimestamp (take 6 from_9am) [] = (from_9am_hours, None)"
  by (simp add: from_9am_def from_9am_hours_def hourly_item_sample utc_clock
        bind_err_def strftime_eval py_round_def)

lemma from_9am_daily:
  "daily_groups utc_fromtimestamp (take 6 from_9am) [] = Inr from_9am_groups"
  by (simp add: from_9am_def from_9am_groups_def daily_item_sample utc_clock
        bind_err_def strftime_eval upd_group_def)

lemma from_9am_summary:
  "summary_loop remdups (take 3 from_9am_groups) [] = (from_9am_days, None)"
  by (simp add: from_9am_groups_def from_9am_days_def daily_summary_def
        round_max_def round_min_def dominant_def bind_err_def strftime_eval py_round_def)

lemma from_9am_process:
  assumes "fromtimestamp e = utc_fromtimestamp" and "set_iter e = remdups"
  shows "process_forecast_data e (forecast_payload from_9am) s =
           (s\<lparr>hourly_forecast := Some from_9am_hours, daily_forecast := Some from_9am_days\<rparr>, None)"
  using process_forecast_data_steps [OF forecast_payload_reads(1) forecast_payload_reads(3),
      of e from_9am from_9am_hours from_9am_groups from_9am_days None s]
    from_9am_hourly from_9am_daily from_9am_summary
  by (simp add: assms)

section \<open>The hourly forecast\<close>

text \<open>
  Claim C6. For every sequence of forecast items whose first six can be read (a
  timestamp the clock accepts, a numeric temperature, a condition), the hourly forecast
  consists of the first \<open>min 6 n\<close> items in order: the temperature rounded to a nearest
  integer, the condition as it stands, and the hour of the local time on the 12-hour clock
  followed by AM or PM, with no leading zero. This holds whatever the second half of the
  method does afterwards.
\<close>

theorem hourly_first_six:
  assumes "truthy fd" and "getitem fd ''list'' = Inr (JArr samples)"
      and "list_all (\<lambda>x. \<not> isl (hourly_item (fromtimestamp e) x)) (take 6 samples)"
  shows "\<exists>hs. hourly_forecast (fst (process_forecast_data e fd s)) = Some hs \<and>
           length hs = min 6 (length samples) \<and>
           (\<forall>i<length hs. \<exists>ts dt t.
              item_dt (samples ! i) = Inr (JNum ts) \<and> fromtimestamp e ts = Inr dt \<and>
              item_temp (samples ! i) = Inr (JNum t) \<and>
              h_temp (hs ! i) = py_round t \<and> \<bar>real_of_int (h_temp (hs ! i)) - t\<bar> \<le> 1 / 2 \<and>
              item_condition (samples ! i) = Inr (h_condition (hs ! i)) \<and>
              h_hour (hs ! i) =
                show_nat (hour12 (hour dt)) @ (if hour dt < 12 then ''AM'' else ''PM'') \<and>
              hd (h_hour (hs ! i)) \<noteq> CHR ''0'')"
proof -
  let ?tz = "fromtimestamp e"
  let ?hs = "map (\<lambda>x. projr (hourly_item ?tz x)) (take 6 samples)"
  have loop: "hourly_loop ?tz (take 6 samples) [] = (?hs, None)"
    using hourly_loop_ok [OF assms(3), of "[]"] by simp
  have stored: "hourly_forecast (fst (process_forecast_data e fd s)) = Some ?hs"
    by (rule process_hourly [OF assms(1) forecast_list_JArr [OF assms(2)] loop])
  have len: "length ?hs = min 6 (length samples)"
    by simp
  have entry: "\<exists>ts dt t.
      item_dt (samples ! i) = Inr (JNum ts) \<and> ?tz ts = Inr dt \<and>
      item_temp (samples ! i) = Inr (JNum t) \<and>
      h_temp (?hs ! i) = py_round t \<and> \<bar>real_of_int (h_temp (?hs ! i)) - t\<bar> \<le> 1 / 2 \<and>
      item_condition (samples ! i) = Inr (h_condition (?hs ! i)) \<and>
      h_hour (?hs ! i) = show_nat (hour12 (hour dt)) @ (if hour dt < 12 then ''AM'' else ''PM'') \<and>
      hd (h_hour (?hs ! i)) \<noteq> CHR ''0''" if "i < length ?hs" for i
  proof -
    from that have i: "i < length (take 6 samples)" by simp
    then have nth: "take 6 samples ! i = samples ! i" by simp
    from i assms(3) have "\<not> isl (hourly_item ?tz (take 6 samples ! i))"
      by (simp add: list_all_length)
    then obtain h where h: "hourly_item ?tz (samples ! i) = Inr h"
      unfolding nth by (cases "hourly_item ?tz (samples ! i)") auto
    from i have hs_i: "?hs ! i = h"
      using h nth by simp
    from hourly_item_Inr [OF h] obtain ts dt t where
      "item_dt (samples ! i) = Inr (JNum ts)" "?tz ts = Inr dt"
      "item_temp (samples ! i) = Inr (JNum t)" "h_temp h = py_round t"
      "item_condition (samples ! i) = Inr (h_condition h)"
      "h_hour h = lstrip0 (strftime_Ip dt)"
      by blast
    then show ?thesis
      unfolding hs_i using py_round_nearest [of t] hourly_label [of dt] by auto
  qed
  from stored len entry show ?thesis by blast
qed

text \<open>
  The items three hours apart from 09:00 give the labels 9AM, 12PM, 3PM, 6PM, 9PM and
  12AM; the seventh item is dropped, 72.5 rounds to 72, 73.5 to 74 and -2.5 to -2.
\<close>

theorem hourly_first_six_witness:
  "truthy (forecast_payload from_9am) \<and>
   getitem (forecast_payload from_9am) ''list'' = Inr (JArr from_9am) \<and>
   list_all (\<lambda>x. \<not> isl (hourly_item (fromtimestamp utc_env) x)) (take 6 from_9am) \<and>
   length from_9am = 7 \<and>
   hourly_forecast (fst (process_forecast_data utc_env (forecast_payload from_9am) tampa)) =
     Some from_9am_hours \<and>
   map h_hour from_9am_hours = [''9AM'', ''12PM'', ''3PM'', ''6PM'', ''9PM'', ''12AM''] \<and>
   map h_temp from_9am_hours = [72, 72, 74, 71, -2, 69]"
proof -
  have ok: "list_all (\<lambda>x. \<not> isl (hourly_item (fromtimestamp utc_env) x)) (take 6 from_9am)"
    by (simp add: utc_env_fields from_9am_def hourly_item_sample utc_clock bind_err_def)
  have len: "length from_9am = 7"
    by (simp add: from_9am_def)
  have labels: "map h_hour from_9am_hours = [''9AM'', ''12PM'', ''3PM'', ''6PM'', ''9PM'', ''12AM'']"
    "map h_temp from_9am_hours = [72, 72, 74, 71, -2, 69]"
    by (simp_all add: from_9am_hours_def)
  from hourly_first_six [OF forecast_payload_reads(1) forecast_payload_reads(2) ok, of tampa]
  obtain hs where
    "hourly_forecast (fst (process_forecast_data utc_env (forecast_payload from_9am) tampa)) = Some hs"
    by blast
  then have "hourly_forecast (fst (process_forecast_data utc_env (forecast_payload from_9am) tampa)) =
      Some from_9am_hours"
    by (simp add: from_9am_process [OF utc_env_fields])
  with ok len labels show ?thesis
    by (simp add: forecast_payload_reads)
qed

section \<open>The daily forecast\<close>

lemma from_9pm_hourly:
  "hourly_loop (fromtimestamp utc_env) (take 6 from_9pm) [] = (from_9pm_hours, None)"
  by (simp add: utc_env_fields from_9pm_def from_9pm_hours_def hourly_item_sample utc_clock
        bind_err_def strftime_eval py_round_def)

lemma from_9pm_daily:
  "daily_groups (fromtimestamp utc_env) (take 6 from_9pm) [] = Inr from_9pm_groups"
  by (simp add: utc_env_fields from_9pm_def from_9pm_groups_def daily_item_sample utc_clock
        bind_err_def strftime_eval upd_group_def)

lemma from_9pm_summary:
  "summary_loop (set_iter utc_env) (take 3 from_9pm_groups) [] = (from_9pm_days, None)"
  by (simp add: utc_env_fields from_9pm_groups_def from_9pm_days_def daily_summary_def
        round_max_def round_min_def dominant_def bind_err_def strftime_eval py_round_def)

lemmas from_9pm_process =
  process_forecast_data_steps [OF forecast_payload_reads(1) forecast_payload_reads(3)
    from_9pm_hourly from_9pm_daily from_9pm_summary]

text \<open>
  Claim C1 says that the daily list has \<open>min 3 d\<close> entries, \<open>d\<close> being the number of
  distinct dates among all items. The second loop runs over \<open>hourly_list\<close>, the first six
  items, although its comment announces the next three days: of ten items three hours
  apart from 21:00, which span three dates, only the first six are grouped, and the daily
  forecast has two entries, April 8 and April 9.
\<close>

theorem daily_from_first_six_only:
  "length from_9pm = 10 \<and>
   remdups (map (item_date utc_fromtimestamp) from_9pm) =
     [Inr ''2024-04-08'', Inr ''2024-04-09'', Inr ''2024-04-10''] \<and>
   daily_forecast (fst (process_forecast_data utc_env (forecast_payload from_9pm) tampa)) =
     Some from_9pm_days \<and>
   map d_date_str from_9pm_days = [''04/08'', ''04/09'']"
proof -
  have "remdups (map (item_date utc_fromtimestamp) from_9pm) =
      [Inr ''2024-04-08'', Inr ''2024-04-09'', Inr ''2024-04-10'']"
    by (simp add: from_9pm_def sample_reads utc_clock bind_err_def strftime_eval)
  moreover have "length from_9pm = 10"
    by (simp add: from_9pm_def)
  moreover have "map d_date_str from_9pm_days = [''04/08'', ''04/09'']"
    by (simp add: from_9pm_days_def)
  ultimately show ?thesis
    by (simp add: from_9pm_process)
qed

section \<open>The dominant condition\<close>

text \<open>
  Claim C3, as amended. The condition of a daily entry is a condition of the group
  whose count is greatest; among several conditions of greatest count it is the one that
  comes first when the set of the group's conditions is iterated, for every iteration
  order \<open>si\<close> that lists the members of the set. The outcome is a function of the items
  and of that order.
\<close>

theorem dominant_condition:
  assumes "daily_summary si g = Inr d" and "set (si (conditions g)) = set (conditions g)"
  shows "d_condition d \<in> set (conditions g) \<and>
         (\<forall>c\<in>set (conditions g).
            count_list (conditions g) c \<le> count_list (conditions g) (d_condition d)) \<and>
         (\<exists>pre post. si (conditions g) = pre @ d_condition d # post \<and>
            (\<forall>c\<in>set pre. count_list (conditions g) c < count_list (conditions g) (d_condition d)))"
proof -
  from assms(1) have dom: "dominant si (conditions g) = Inr (d_condition d)"
    unfolding daily_summary_def bind_err_Inr_iff by auto
  from dominant_Inr [OF dom] obtain pre post where
    sp: "si (conditions g) = pre @ d_condition d # post"
    and lt: "\<forall>y\<in>set pre. count_list (conditions g) y < count_list (conditions g) (d_condition d)"
    and le: "\<forall>y\<in>set post. count_list (conditions g) y \<le> count_list (conditions g) (d_condition d)"
    by blast
  have mem: "d_condition d \<in> set (conditions g)"
    using sp assms(2) by (metis in_set_conv_decomp)
  have "count_list (conditions g) c \<le> count_list (conditions g) (d_condition d)"
    if "c \<in> set (conditions g)" for c
  proof -
    from that assms(2) have "c \<in> set (pre @ d_condition d # post)"
      using sp by simp
    with lt le show ?thesis by (auto simp: less_imp_le)
  qed
  with mem sp lt show ?thesis by blast
qed

text \<open>
  In the group of April 8 of the items from 09:00, Clouds and Clear occur twice and Rain
  once; with a set that iterates Clouds first, the entry shows Clouds.
\<close>

theorem dominant_condition_witness:
  "daily_summary remdups (snd (hd from_9am_groups)) = Inr (hd from_9am_days) \<and>
   set (remdups (conditions (snd (hd from_9am_groups)))) = set (conditions (snd (hd from_9am_groups))) \<and>
   d_condition (hd from_9am_days) = JStr ''Clouds'' \<and>
   d_condition (hd from_9am_days) \<in> set (conditions (snd (hd from_9am_groups))) \<and>
   count_list (conditions (snd (hd from_9am_groups))) (JStr ''Clouds'') = 2 \<and>
   count_list (conditions (snd (hd from_9am_groups))) (JStr ''Clear'') = 2"
proof -
  have run: "daily_summary remdups (snd (hd from_9am_groups)) = Inr (hd from_9am_days)"
    by (simp add: from_9am_groups_def from_9am_days_def daily_summary_def round_max_def
          round_min_def dominant_def bind_err_def strftime_eval py_round_def)
  have order: "set (remdups (conditions (snd (hd from_9am_groups)))) =
      set (conditions (snd (hd from_9am_groups)))"
    by simp
  have counts: "d_condition (hd from_9am_days) = JStr ''Clouds''"
    "count_list (conditions (snd (hd from_9am_groups))) (JStr ''Clouds'') = 2"
    "count_list (conditions (snd (hd from_9am_groups))) (JStr ''Clear'') = 2"
    by (simp_all add: from_9am_groups_def from_9am_days_def)
  from dominant_condition [OF run order] run order counts show ?thesis
    by simp
qed

lemma tie_process:
  "process_forecast_data utc_env (forecast_payload tie) tampa =
     (tampa\<lparr>hourly_forecast :=
               Some [\<lparr>h_hour = ''9AM'', h_temp = 70, h_condition = JStr ''Rain''\<rparr>,
                     \<lparr>h_hour = ''12PM'', h_temp = 72, h_condition = JStr ''Clear''\<rparr>],
             daily_forecast :=
               Some [\<lparr>d_date = ''Mon'', d_date_str = ''04/08'', d_temp_high = 72, d_temp_low = 70,
                       d_condition = JStr ''Rain''\<rparr>]\<rparr>, None)"
  by (simp add: process_forecast_data_def forecast_payload_reads utc_env_def tie_def
        hourly_item_sample daily_item_sample utc_clock bind_err_def strftime_eval upd_group_def
        daily_summary_def round_max_def round_min_def dominant_def py_round_def)

lemma tie_process_rev:
  "process_forecast_data rev_env (forecast_payload tie) tampa =
     (tampa\<lparr>hourly_forecast :=
               Some [\<lparr>h_hour = ''9AM'', h_temp = 70, h_condition = JStr ''Rain''\<rparr>,
                     \<lparr>h_hour = ''12PM'', h_temp = 72, h_condition = JStr ''Clear''\<rparr>],
             daily_forecast :=
               Some [\<lparr>d_date = ''Mon'', d_date_str = ''04/08'', d_temp_high = 72, d_temp_low = 70,
                       d_condition = JStr ''Clear''\<rparr>]\<rparr>, None)"
  by (simp add: process_forecast_data_def forecast_payload_reads rev_env_def utc_env_def tie_def
        hourly_item_sample daily_item_sample utc_clock bind_err_def strftime_eval upd_group_def
        daily_summary_def round_max_def round_min_def dominant_def py_round_def)

text \<open>
  Claim C3 as stated fails: of the two items of April 8, Rain comes first and Clear
  second, once each. Where the set iterates Rain first the entry shows Rain; where it
  iterates Clear first the entry shows Clear, the later of the two, for the same items.
\<close>

theorem tie_follows_set_order:
  "map h_condition (the (hourly_forecast (fst (process_forecast_data utc_env (forecast_payload tie) tampa)))) =
     [JStr ''Rain'', JStr ''Clear''] \<and>
   map d_condition (the (daily_forecast (fst (process_forecast_data utc_env (forecast_payload tie) tampa)))) =
     [JStr ''Rain''] \<and>
   map d_condition (the (daily_forecast (fst (process_forecast_data rev_env (forecast_payload tie) tampa)))) =
     [JStr ''Clear'']"
  by (simp add: tie_process tie_process_rev)

section \<open>Totality of the aggregation\<close>

text \<open>
  Claim C8, as amended. With a set that iterates over its members, the aggregation
  returns without raising on every payload whose items (the first six of the list) are
  well formed, and sets both outputs: as many hourly entries as items, at most three daily
  entries, and two empty lists for an empty list of items. On a payload that is \<open>None\<close>
  or empty it returns at once and leaves the manager as it is.
\<close>

theorem aggregation_returns:
  assumes "\<forall>cs. set (set_iter e cs) = set cs"
  shows "(\<not> truthy fd \<longrightarrow> process_forecast_data e fd s = (s, None)) \<and>
         (truthy fd \<longrightarrow> forecast_list fd = Inr items \<longrightarrow>
          list_all (well_formed (fromtimestamp e)) items \<longrightarrow>
          (\<exists>hs ds. process_forecast_data e fd s =
                      (s\<lparr>hourly_forecast := Some hs, daily_forecast := Some ds\<rparr>, None) \<and>
                   length hs = length items \<and> length ds \<le> 3 \<and>
                   (items = [] \<longrightarrow> hs = [] \<and> ds = [])))"
proof (intro conjI impI)
  assume "\<not> truthy fd"
  then show "process_forecast_data e fd s = (s, None)"
    by (simp add: process_forecast_data_def)
next
  let ?tz = "fromtimestamp e"
  assume fd: "truthy fd" "forecast_list fd = Inr items" and wf: "list_all (well_formed ?tz) items"
  from wf have "list_all (\<lambda>x. \<not> isl (hourly_item ?tz x)) items"
    by (simp add: list_all_iff well_formed_def)
  from hourly_loop_ok [OF this, of "[]"]
  have hourly: "hourly_loop ?tz items [] = (map (\<lambda>x. projr (hourly_item ?tz x)) items, None)"
    by simp
  from daily_groups_ok [OF wf, of "[]"] obtain dd where
    groups: "daily_groups ?tz items [] = Inr dd" and good: "\<forall>kg\<in>set dd. good_group (snd kg)"
    by auto
  from good have "\<forall>kg\<in>set (take 3 dd). good_group (snd kg)"
    by (meson in_set_takeD)
  from summary_loop_ok [OF this assms, of "[]"] obtain ds where
    summary: "summary_loop (set_iter e) (take 3 dd) [] = (ds, None)" and len: "length ds = length (take 3 dd)"
    by auto
  have empty: "ds = []" if "items = []"
    using that groups len by simp
  from process_forecast_data_steps [OF fd hourly groups summary, of s] len empty
  show "\<exists>hs ds. process_forecast_data e fd s =
                      (s\<lparr>hourly_forecast := Some hs, daily_forecast := Some ds\<rparr>, None) \<and>
                   length hs = length items \<and> length ds \<le> 3 \<and>
                   (items = [] \<longrightarrow> hs = [] \<and> ds = [])"
    by - (rule exI [of _ "map (\<lambda>x. projr (hourly_item ?tz x)) items"], rule exI [of _ ds], simp)
qed

text \<open>The items from 09:00 are well formed; \<open>None\<close> leaves the manager untouched.\<close>

theorem aggregation_returns_witness:
  "(\<forall>cs. set (set_iter utc_env cs) = set cs) \<and>
   truthy (forecast_payload from_9am) \<and>
   forecast_list (forecast_payload from_9am) = Inr (take 6 from_9am) \<and>
   list_all (well_formed (fromtimestamp utc_env)) (take 6 from_9am) \<and>
   process_forecast_data utc_env (forecast_payload from_9am) tampa =
     (tampa\<lparr>hourly_forecast := Some from_9am_hours, daily_forecast := Some from_9am_days\<rparr>, None) \<and>
   process_forecast_data utc_env JNull tampa = (tampa, None)"
proof -
  have order: "\<forall>cs. set (set_iter utc_env cs) = set cs"
    by (simp add: utc_env_fields)
  have wf: "list_all (well_formed (fromtimestamp utc_env)) (take 6 from_9am)"
    by (simp add: utc_env_fields from_9am_def well_formed_def hourly_item_sample sample_reads
          utc_clock bind_err_def)
  from aggregation_returns [OF order, of JNull tampa]
  have "process_forecast_data utc_env JNull tampa = (tampa, None)"
    by simp
  with order wf show ?thesis
    by (simp add: forecast_payload_reads from_9am_process [OF utc_env_fields])
qed

lemma no_dt_raises: "hourly_item tz no_dt = Inl KeyError"
  by (simp add: no_dt_def hourly_item_def item_datetime_def item_dt_def bind_err_def)

lemma broken_process:
  "process_forecast_data utc_env (forecast_payload broken) tampa =
     (tampa\<lparr>hourly_forecast := Some [\<lparr>h_hour = ''9AM'', h_temp = 70, h_condition = JStr ''Rain''\<rparr>]\<rparr>,
      Some KeyError)"
  by (simp add: process_forecast_data_def forecast_payload_reads utc_env_def broken_def
        hourly_item_sample no_dt_raises utc_clock bind_err_def strftime_eval py_round_def)

text \<open>
  Claim C8 as stated fails: an item without \<open>dt\<close> makes the aggregation raise KeyError.
  The entry of the item before it is already in the hourly forecast, and the daily
  forecast is not set.
\<close>

theorem malformed_item_raises:
  "snd (process_forecast_data utc_env (forecast_payload broken) tampa) = Some KeyError \<and>
   hourly_forecast (fst (process_forecast_data utc_env (forecast_payload broken) tampa)) =
     Some [\<lparr>h_hour = ''9AM'', h_temp = 70, h_condition = JStr ''Rain''\<rparr>] \<and>
   daily_forecast (fst (process_forecast_data utc_env (forecast_payload broken) tampa)) = None"
  by (simp add: broken_process tampa_fields)

section \<open>Fetching\<close>

subsection \<open>What a fetch changes\<close>

lemma process_frame:
  assumes "process_forecast_data e fd s = (s', r)"
  shows "api_key s' = api_key s" "units s' = units s" "update_interval s' = update_interval s"
    "location s' = location s" "last_update s' = last_update s" "weather_data s' = weather_data s"
    "forecast_data s' = forecast_data s" "last_draw_time s' = last_draw_time s"
    "last_temp s' = last_temp s" "last_condition s' = last_condition s" "stdout s' = stdout s"
    "screen s' = screen s" "fetches s' = fetches s"
    "hourly_forecast s \<noteq> None \<Longrightarrow> hourly_forecast s' \<noteq> None"
    "daily_forecast s \<noteq> None \<Longrightarrow> daily_forecast s' \<noteq> None"
  using assms
  by (auto simp: process_forecast_data_def split: if_splits sum.splits prod.splits option.splits)

lemma fetch_try_frame:
  assumes "fetch_try e key city st country un s = (s', r)"
  shows "api_key s' = api_key s" "units s' = units s" "update_interval s' = update_interval s"
    "location s' = location s" "last_draw_time s' = last_draw_time s"
    "last_temp s' = last_temp s" "last_condition s' = last_condition s"
    "screen s' = screen s" "fetches s' = fetches s"
    "hourly_forecast s \<noteq> None \<Longrightarrow> hourly_forecast s' \<noteq> None"
    "daily_forecast s \<noteq> None \<Longrightarrow> daily_forecast s' \<noteq> None"
  using assms
  by (auto simp: fetch_try_def say_def split: if_splits sum.splits prod.splits option.splits
      dest: process_frame)

lemma fetch_try_raised:
  assumes "fetch_try e key city st country un s = (s', Some x)"
  shows "stdout s' = stdout s" "last_update s' = last_update s"
  using assms
  by (auto simp: fetch_try_def say_def split: if_splits sum.splits prod.splits option.splits
      dest: process_frame)

lemma fetch_try_returned:
  assumes "fetch_try e key city st country un s = (s', None)"
  shows "s' = say (NoCoordinates city st) s \<or>
         (stdout s' = stdout s @ [Updated] \<and> last_update s' = time_fetch e)"
  using assms
  by (auto simp: fetch_try_def say_def split: if_splits sum.splits prod.splits option.splits
      dest: process_frame)

lemma fetch_weather_effect:
  assumes "fetch_weather e s = (s1, r)"
  shows "((r = Some KeyError \<and> s1 = s\<lparr>fetches := fetches s + 1\<rparr> \<and>
            (map_of (location s) ''city'' = None \<or> map_of (location s) ''state'' = None \<or>
             map_of (location s) ''country'' = None)) \<or>
          (r = None \<and> s1 = say NoApiKey (s\<lparr>fetches := fetches s + 1\<rparr>)) \<or>
          (r = None \<and> (\<exists>c t. s1 = say (NoCoordinates c t) (s\<lparr>fetches := fetches s + 1\<rparr>))) \<or>
          (r = None \<and> (\<exists>x. stdout s1 = stdout s @ [FetchError x]) \<and> weather_data s1 = JNull \<and>
             forecast_data s1 = JNull \<and> last_update s1 = last_update s) \<or>
          (r = None \<and> stdout s1 = stdout s @ [Updated] \<and> last_update s1 = time_fetch e)) \<and>
         api_key s1 = api_key s \<and> units s1 = units s \<and> update_interval s1 = update_interval s \<and>
         location s1 = location s \<and> last_draw_time s1 = last_draw_time s \<and>
         last_temp s1 = last_temp s \<and> last_condition s1 = last_condition s \<and>
         screen s1 = screen s \<and> fetches s1 = fetches s + 1 \<and>
         (hourly_forecast s \<noteq> None \<longrightarrow> hourly_forecast s1 \<noteq> None) \<and>
         (daily_forecast s \<noteq> None \<longrightarrow> daily_forecast s1 \<noteq> None)"
  (is "?outcome \<and> ?frame")
proof -
  let ?s = "s\<lparr>fetches := fetches s + 1\<rparr>"
  show ?thesis
  proof (cases "case api_key s of None \<Rightarrow> True | Some k \<Rightarrow> k = []")
    case True
    with assms have "r = None" "s1 = say NoApiKey ?s"
      by (auto simp: fetch_weather_def Let_def split: option.splits)
    then show ?thesis
      by (simp add: say_def)
  next
    case False
    then obtain key where key: "api_key s = Some key" "key \<noteq> []"
      by (auto split: option.splits)
    show ?thesis
    proof (cases "map_of (location s) ''city'' = None \<or> map_of (location s) ''state'' = None \<or>
        map_of (location s) ''country'' = None")
      case True
      with assms key have "r = Some KeyError" "s1 = ?s"
        by (auto simp: fetch_weather_def Let_def split: option.splits)
      with True show ?thesis
        by simp
    next
      case False
      then obtain city st country where loc: "map_of (location s) ''city'' = Some city"
        "map_of (location s) ''state'' = Some st" "map_of (location s) ''country'' = Some country"
        by auto
      let ?un = "case units s of None \<Rightarrow> ''imperial'' | Some u \<Rightarrow> u"
      obtain s' r' where tr: "fetch_try e key city st country ?un ?s = (s', r')"
        by (cases "fetch_try e key city st country ?un ?s") auto
      note frame = fetch_try_frame [OF tr]
      show ?thesis
      proof (cases r')
        case None
        with tr assms key loc have res: "s1 = s'" "r = None"
          by (simp_all add: fetch_weather_def Let_def)
        from fetch_try_returned [OF tr [unfolded None]]
        have "s' = say (NoCoordinates city st) ?s \<or>
          (stdout s' = stdout s @ [Updated] \<and> last_update s' = time_fetch e)"
          by simp
        then show ?thesis
        proof
          assume "s' = say (NoCoordinates city st) ?s"
          with res have s1: "s1 = say (NoCoordinates city st) ?s"
            by simp
          then have "\<exists>c t. s1 = say (NoCoordinates c t) ?s"
            by blast
          with res(2) have ?outcome
            by blast
          moreover from s1 have ?frame
            by (simp add: say_def)
          ultimately show ?thesis ..
        next
          assume "stdout s' = stdout s @ [Updated] \<and> last_update s' = time_fetch e"
          with res frame show ?thesis
            by simp
        qed
      next
        case (Some x)
        with tr assms key loc
        have res: "s1 = (say (FetchError x) s')\<lparr>weather_data := JNull, forecast_data := JNull\<rparr>"
          "r = None"
          by (simp_all add: fetch_weather_def Let_def)
        from fetch_try_raised [OF tr [unfolded Some]]
        have "stdout s' = stdout s" "last_update s' = last_update s"
          by simp_all
        with res frame show ?thesis
          by (simp add: say_def)
      qed
    qed
  qed
qed


lemma get_weather_effect:
  assumes "get_weather e s = (s1, r)"
  shows "api_key s1 = api_key s \<and> units s1 = units s \<and> update_interval s1 = update_interval s \<and>
         location s1 = location s \<and> last_draw_time s1 = last_draw_time s \<and>
         last_temp s1 = last_temp s \<and> last_condition s1 = last_condition s \<and>
         screen s1 = screen s \<and> fetches s1 = fetches s + (if needs_fetch e s then 1 else 0) \<and>
         (hourly_forecast s \<noteq> None \<longrightarrow> hourly_forecast s1 \<noteq> None) \<and>
         (daily_forecast s \<noteq> None \<longrightarrow> daily_forecast s1 \<noteq> None) \<and>
         (\<forall>w. r = Inr w \<longrightarrow> w = weather_data s1)"
proof (cases "needs_fetch e s")
  case True
  obtain s' r' where run: "fetch_weather e s = (s', r')"
    by (cases "fetch_weather e s") auto
  with True assms have "s1 = s'" "r = (case r' of None \<Rightarrow> Inr (weather_data s') | Some x \<Rightarrow> Inl x)"
    by (auto simp: get_weather_def split: option.splits)
  with fetch_weather_effect [OF run] True show ?thesis
    by (simp split: option.splits)
next
  case False
  with assms show ?thesis
    by (auto simp: get_weather_def)
qed


lemma online_fields:
  "fromtimestamp online = utc_fromtimestamp" "set_iter online = remdups"
  "time_get online = 1000" "time_fetch online = 1001"
  "http_geo online = (\<lambda>city state country key. Inr tampa_coords)"
  "http_weather online = (\<lambda>lat lon key un. Inr (current (724 / 10) 40 ''Clouds''))"
  "http_forecast online = (\<lambda>lat lon key un. Inr (forecast_payload from_9am))"
  by (simp_all add: online_def utc_env_def)

lemma tampa_coords_reads:
  "truthy tampa_coords"
  "bind_err (getitem0 tampa_coords) (\<lambda>g. getitem g ''lat'') = Inr (JNum (2795 / 100))"
  "bind_err (getitem0 tampa_coords) (\<lambda>g. getitem g ''lon'') = Inr (JNum (-8246 / 100))"
  by (simp_all add: tampa_coords_def bind_err_def)

lemma online_fetch: "fetch_weather online tampa = (cached, None)"
  by (simp add: fetch_weather_def fetch_try_def Let_def tampa_fields online_fields
      tampa_coords_reads from_9am_process [OF online_fields(1,2)] say_def cached_def)

lemma offline_fetch:
  "fetch_weather utc_env cached =
     (cached\<lparr>weather_data := JNull, forecast_data := JNull,
             stdout := [Updated, FetchError ConnectionError], fetches := 2\<rparr>, None)"
  by (simp add: fetch_weather_def fetch_try_def Let_def cached_def tampa_fields say_def)
    (simp add: utc_env_def offline_def)

lemma offline_first_fetch:
  "fetch_weather utc_env tampa =
     (tampa\<lparr>weather_data := JNull, forecast_data := JNull,
            stdout := [FetchError ConnectionError], fetches := 1\<rparr>, None)"
  by (simp add: fetch_weather_def fetch_try_def Let_def tampa_fields say_def)
    (simp add: utc_env_def offline_def tampa_fields)

lemma no_key_fetch:
  "fetch_weather utc_env (cached\<lparr>api_key := None\<rparr>) =
     (cached\<lparr>api_key := None, stdout := [Updated, NoApiKey], fetches := 2\<rparr>, None)"
  by (simp add: fetch_weather_def Let_def cached_def say_def)

subsection \<open>Failures of a fetch\<close>

text \<open>
  Claim C2, as amended. With city, state and country configured, no exception of a fetch
  reaches the caller and each fetch prints one message. An exception inside the \<open>try\<close>
  block (a network or HTTP error, a malformed answer) sets \<open>weather_data\<close> and
  \<open>forecast_data\<close> to \<open>None\<close> and leaves \<open>last_update\<close>; a missing API key and an
  empty geocoding answer leave every attribute as it was. The hourly and daily lists are
  never set to absent by a fetch.
\<close>

theorem fetch_failure:
  assumes "map_of (location s) ''city'' \<noteq> None" and "map_of (location s) ''state'' \<noteq> None"
      and "map_of (location s) ''country'' \<noteq> None"
  shows "\<exists>s1 m. fetch_weather e s = (s1, None) \<and> stdout s1 = stdout s @ [m] \<and>
           (case m of
              NoApiKey \<Rightarrow> s1 = say NoApiKey (s\<lparr>fetches := fetches s + 1\<rparr>)
            | NoCoordinates c t \<Rightarrow> s1 = say (NoCoordinates c t) (s\<lparr>fetches := fetches s + 1\<rparr>)
            | FetchError x \<Rightarrow>
                weather_data s1 = JNull \<and> forecast_data s1 = JNull \<and>
                last_update s1 = last_update s
            | Updated \<Rightarrow> last_update s1 = time_fetch e) \<and>
           (hourly_forecast s \<noteq> None \<longrightarrow> hourly_forecast s1 \<noteq> None) \<and>
           (daily_forecast s \<noteq> None \<longrightarrow> daily_forecast s1 \<noteq> None)"
proof -
  obtain s1 r where run: "fetch_weather e s = (s1, r)"
    by (cases "fetch_weather e s") auto
  note eff = fetch_weather_effect [OF run]
  from eff [THEN conjunct2]
  have keep: "hourly_forecast s \<noteq> None \<longrightarrow> hourly_forecast s1 \<noteq> None"
    "daily_forecast s \<noteq> None \<longrightarrow> daily_forecast s1 \<noteq> None"
    by simp_all
  from eff [THEN conjunct1] assms have none: "r = None"
    by auto
  have found: "\<exists>m. stdout s1 = stdout s @ [m] \<and>
           (case m of
              NoApiKey \<Rightarrow> s1 = say NoApiKey (s\<lparr>fetches := fetches s + 1\<rparr>)
            | NoCoordinates c t \<Rightarrow> s1 = say (NoCoordinates c t) (s\<lparr>fetches := fetches s + 1\<rparr>)
            | FetchError x \<Rightarrow>
                weather_data s1 = JNull \<and> forecast_data s1 = JNull \<and>
                last_update s1 = last_update s
            | Updated \<Rightarrow> last_update s1 = time_fetch e)"
    using eff [THEN conjunct1]
  proof (elim disjE conjE exE, goal_cases)
    case 1
    with assms show ?case by simp
  next
    case 2
    with assms show ?case by simp
  next
    case 3
    with assms show ?case by simp
  next
    case 4
    then show ?case
      by - (rule exI [of _ NoApiKey], simp add: say_def)
  next
    case (5 c t)
    then show ?case
      by - (rule exI [of _ "NoCoordinates c t"], simp add: say_def)
  next
    case (6 x)
    then show ?case
      by - (rule exI [of _ "FetchError x"], simp)
  next
    case 7
    then show ?case
      by - (rule exI [of _ Updated], simp)
  qed
  from found obtain m where "stdout s1 = stdout s @ [m]"
    "case m of
       NoApiKey \<Rightarrow> s1 = say NoApiKey (s\<lparr>fetches := fetches s + 1\<rparr>)
     | NoCoordinates c t \<Rightarrow> s1 = say (NoCoordinates c t) (s\<lparr>fetches := fetches s + 1\<rparr>)
     | FetchError x \<Rightarrow>
         weather_data s1 = JNull \<and> forecast_data s1 = JNull \<and> last_update s1 = last_update s
     | Updated \<Rightarrow> last_update s1 = time_fetch e"
    by blast
  with run none keep show ?thesis
    by blast
qed

text \<open>With the network down, the manager that holds a snapshot loses its current conditions.\<close>

theorem fetch_failure_witness:
  "map_of (location cached) ''city'' \<noteq> None \<and> map_of (location cached) ''state'' \<noteq> None \<and>
   map_of (location cached) ''country'' \<noteq> None \<and>
   fetch_weather utc_env cached =
     (cached\<lparr>weather_data := JNull, forecast_data := JNull,
             stdout := [Updated, FetchError ConnectionError], fetches := 2\<rparr>, None)"
  using fetch_failure [of cached utc_env] offline_fetch
  by (simp add: cached_def tampa_fields)

text \<open>
  Claim C2 as stated fails: after the same failed fetch the hourly and daily lists of the
  previous snapshot are still there, and without an API key the current conditions of the
  previous snapshot stay as well.
\<close>

theorem stale_snapshot_kept:
  "stdout (fst (fetch_weather utc_env cached)) = [Updated, FetchError ConnectionError] \<and>
   hourly_forecast (fst (fetch_weather utc_env cached)) = Some from_9am_hours \<and>
   daily_forecast (fst (fetch_weather utc_env cached)) = Some from_9am_days \<and>
   stdout (fst (fetch_weather utc_env (cached\<lparr>api_key := None\<rparr>))) = [Updated, NoApiKey] \<and>
   weather_data (fst (fetch_weather utc_env (cached\<lparr>api_key := None\<rparr>))) =
     current (724 / 10) 40 ''Clouds''"
  by (simp add: offline_fetch no_key_fetch) (simp add: cached_def)

subsection \<open>Retrying\<close>

text \<open>
  Claim C4. A fetch whose \<open>try\<close> block raised leaves \<open>weather_data\<close> at \<open>None\<close>, and
  whenever a fetch leaves no snapshot, the next \<open>get_weather\<close> fetches again whatever the
  clock shows: the second attempt is not held back until the refresh interval has passed.
\<close>

theorem immediate_retry:
  "(stdout (fst (fetch_weather e1 s)) = stdout s @ [FetchError x] \<longrightarrow>
      weather_data (fst (fetch_weather e1 s)) = JNull) \<and>
   (\<not> truthy (weather_data (fst (fetch_weather e1 s))) \<longrightarrow>
      needs_fetch e2 (fst (fetch_weather e1 s)) \<and>
      fetches (fst (get_weather e2 (fst (fetch_weather e1 s)))) = fetches s + 2)"
proof -
  obtain s1 r where run: "fetch_weather e1 s = (s1, r)"
    by (cases "fetch_weather e1 s") auto
  note eff = fetch_weather_effect [OF run]
  have cleared: "weather_data s1 = JNull" if "stdout s1 = stdout s @ [FetchError x]"
    using eff [THEN conjunct1] that
    by (elim disjE conjE exE) (simp_all add: say_def)
  have again: "needs_fetch e2 s1 \<and> fetches (fst (get_weather e2 s1)) = fetches s + 2"
    if "\<not> truthy (weather_data s1)"
  proof -
    from that have need: "needs_fetch e2 s1"
      by (simp add: needs_fetch_def)
    obtain s2 r2 where "get_weather e2 s1 = (s2, r2)"
      by (cases "get_weather e2 s1") auto
    from get_weather_effect [OF this] need eff [THEN conjunct2] this show ?thesis
      by simp
  qed
  from cleared again show ?thesis
    by (simp add: run)
qed

text \<open>With the network down, two calls at the same instant make two attempts.\<close>

theorem immediate_retry_witness:
  "stdout (fst (fetch_weather utc_env tampa)) = stdout tampa @ [FetchError ConnectionError] \<and>
   weather_data (fst (fetch_weather utc_env tampa)) = JNull \<and>
   \<not> truthy (weather_data (fst (fetch_weather utc_env tampa))) \<and>
   needs_fetch utc_env (fst (fetch_weather utc_env tampa)) \<and>
   fetches (fst (get_weather utc_env (fst (fetch_weather utc_env tampa)))) = 2"
  using immediate_retry [of utc_env tampa ConnectionError utc_env]
  by (simp add: offline_first_fetch tampa_fields)

subsection \<open>When \<open>get_weather\<close> fetches\<close>

text \<open>
  Claim C5. \<open>get_weather\<close> calls \<open>_fetch_weather\<close> once if the snapshot is absent (its
  truth value is false) or the time since \<open>last_update\<close> exceeds the refresh interval,
  300 by default, and not at all otherwise. The first call on a new manager makes one
  attempt. After a call that fetched successfully and holds a snapshot, a second call
  within the interval makes none and returns the same snapshot.
\<close>

theorem get_weather_fetches:
  "(needs_fetch e s \<longleftrightarrow>
      \<not> truthy (weather_data s) \<or>
      (case update_interval s of None \<Rightarrow> 300 | Some i \<Rightarrow> i) < time_get e - last_update s) \<and>
   fetches (fst (get_weather e s)) = fetches s + (if needs_fetch e s then 1 else 0) \<and>
   (\<not> needs_fetch e s \<longrightarrow> get_weather e s = (s, Inr (weather_data s))) \<and>
   fetches (fst (get_weather e (init key un iv loc))) = 1 \<and>
   (get_weather e s = (s1, Inr w) \<longrightarrow> stdout s1 = stdout s @ [Updated] \<longrightarrow> truthy w \<longrightarrow>
    time_get e2 - time_fetch e \<le> (case update_interval s of None \<Rightarrow> 300 | Some i \<Rightarrow> i) \<longrightarrow>
    get_weather e2 s1 = (s1, Inr w))"
proof -
  have count: "fetches (fst (get_weather e' s')) = fetches s' + (if needs_fetch e' s' then 1 else 0)"
    for e' s'
  proof -
    obtain s2 r2 where run: "get_weather e' s' = (s2, r2)"
      by (cases "get_weather e' s'") auto
    from get_weather_effect [OF run] run show ?thesis
      by simp
  qed
  have first: "fetches (fst (get_weather e (init key un iv loc))) = 1"
    unfolding count by (simp add: needs_fetch_def init_def)
  have second: "get_weather e2 s1 = (s1, Inr w)"
    if run: "get_weather e s = (s1, Inr w)" and out: "stdout s1 = stdout s @ [Updated]"
      and w: "truthy w"
      and t: "time_get e2 - time_fetch e \<le> (case update_interval s of None \<Rightarrow> 300 | Some i \<Rightarrow> i)"
  proof -
    from run out have need: "needs_fetch e s"
      by (auto simp: get_weather_def split: if_splits)
    obtain r' where fetch: "fetch_weather e s = (s1, r')"
      using run need by (cases "fetch_weather e s") (auto simp: get_weather_def split: option.splits)
    from fetch_weather_effect [OF fetch, THEN conjunct1] out
    have upd: "last_update s1 = time_fetch e"
      by (elim disjE conjE exE) (simp_all add: say_def)
    from fetch_weather_effect [OF fetch, THEN conjunct2]
    have iv: "update_interval s1 = update_interval s"
      by simp
    from get_weather_effect [OF run] have data: "weather_data s1 = w"
      by simp
    from upd iv data w t have "\<not> needs_fetch e2 s1"
      by (simp add: needs_fetch_def)
    with data show ?thesis
      by (simp add: get_weather_def)
  qed
  from count [of e s] first second show ?thesis
    by (simp add: needs_fetch_def get_weather_def)
qed

text \<open>A successful fetch at time 1001, and a second call at time 1200.\<close>

theorem get_weather_fetches_witness:
  "get_weather online tampa = (cached, Inr (current (724 / 10) 40 ''Clouds'')) \<and>
   stdout cached = stdout tampa @ [Updated] \<and>
   truthy (current (724 / 10) 40 ''Clouds'') \<and>
   time_get (online\<lparr>time_get := 1200\<rparr>) - time_fetch online \<le>
     (case update_interval tampa of None \<Rightarrow> 300 | Some i \<Rightarrow> i) \<and>
   get_weather (online\<lparr>time_get := 1200\<rparr>) cached = (cached, Inr (current (724 / 10) 40 ''Clouds'')) \<and>
   fetches cached = 1"
proof -
  have first: "get_weather online tampa = (cached, Inr (current (724 / 10) 40 ''Clouds''))"
    by (simp add: get_weather_def needs_fetch_def tampa_fields online_fetch) (simp add: cached_def)
  have log: "stdout cached = stdout tampa @ [Updated]" "fetches cached = 1"
    by (simp_all add: cached_def tampa_fields)
  have snapshot: "truthy (current (724 / 10) 40 ''Clouds'')"
    by (simp add: current_def)
  have soon: "time_get (online\<lparr>time_get := 1200\<rparr>) - time_fetch online \<le>
      (case update_interval tampa of None \<Rightarrow> 300 | Some i \<Rightarrow> i)"
    by (simp add: online_fields tampa_fields)
  from get_weather_fetches [of online tampa None None None "[]" cached
      "current (724 / 10) 40 ''Clouds''" "online\<lparr>time_get := 1200\<rparr>"]
    first log snapshot soon
  show ?thesis
    by simp
qed

section \<open>Drawing\<close>

subsection \<open>Calls to the display manager\<close>

lemma run_calls_ok:
  "\<forall>c\<in>set cs. d c = None \<Longrightarrow> run_calls d cs seen = (seen @ cs, None)"
  by (induction cs arbitrary: seen) auto

lemma run_calls_raised:
  "run_calls d cs seen = (sc, Some x) \<Longrightarrow> \<exists>pre c post. cs = pre @ c # post \<and> sc = seen @ pre \<and> d c = Some x"
proof (induction cs arbitrary: seen)
  case Nil
  then show ?case by simp
next
  case (Cons c cs)
  show ?case
  proof (cases "d c")
    case None
    with Cons.prems have "run_calls d cs (seen @ [c]) = (sc, Some x)"
      by simp
    from Cons.IH [OF this] obtain pre c' post where
      "cs = pre @ c' # post" "sc = (seen @ [c]) @ pre" "d c' = Some x"
      by blast
    then have "c # cs = (c # pre) @ c' # post \<and> sc = seen @ (c # pre) \<and> d c' = Some x"
      by simp
    then show ?thesis by blast
  next
    case (Some y)
    with Cons.prems have "sc = seen" "y = x"
      by simp_all
    with Some have "c # cs = [] @ c # cs \<and> sc = seen @ [] \<and> d c = Some x"
      by simp
    then show ?thesis by blast
  qed
qed

lemma display_weather_result:
  assumes "get_weather e s = (s1, Inr weather)" and "truthy weather"
      and "weather_fields weather = Inr (temp, condition, humidity)"
      and "display_weather force_clear e s = (s2, None)"
  shows "last_temp s2 = Some temp \<and> last_condition s2 = Some condition \<and>
         (s2 = s1 \<or>
          s2 = s1\<lparr>screen := screen s2, last_temp := Some temp, last_condition := Some condition\<rparr>)"
  using assms
  by (auto simp: display_weather_def redraw_needed_def
      split: sum.splits bool.splits prod.splits option.splits if_splits)

lemma key_pair_kept:
  assumes "last_temp s \<noteq> None \<longrightarrow> last_condition s \<noteq> None"
      and "display_weather force_clear e s = (s2, r)"
  shows "last_temp s2 \<noteq> None \<longrightarrow> last_condition s2 \<noteq> None"
proof -
  obtain s1 r1 where run: "get_weather e s = (s1, r1)"
    by (cases "get_weather e s") auto
  from get_weather_effect [OF run] assms(1)
  have "last_temp s1 \<noteq> None \<longrightarrow> last_condition s1 \<noteq> None"
    by simp
  with assms(2) run show ?thesis
    by (auto simp: display_weather_def split: sum.splits bool.splits prod.splits option.splits if_splits)
qed


lemma current_reads:
  "truthy (current t h c)"
  "weather_fields (current t h c) = Inr (py_round t, JStr c, JNum h)"
  by (simp_all add: current_def weather_fields_def item_temp_def item_condition_def bind_err_def)

lemma online_get: "get_weather online tampa = (cached, Inr (current (724 / 10) 40 ''Clouds''))"
  by (simp add: get_weather_def needs_fetch_def tampa_fields online_fetch) (simp add: cached_def)

lemma cached_fields:
  "hourly_forecast cached = Some from_9am_hours"
  "daily_forecast cached = Some from_9am_days"
  "last_temp cached = None"
  "last_condition cached = None"
  "last_draw_time cached = 0"
  "screen cached = []"
  "weather_data cached = current (724 / 10) 40 ''Clouds''"
  "last_update cached = 1001"
  "update_interval cached = None"
  by (simp_all add: cached_def tampa_fields)

lemma rounds_to_72:
  "py_round (724 / 10) = 72" "py_round (362 / 5) = 72" "py_round (721 / 10) = 72"
  by (simp_all add: py_round_def)

lemma online_display: "dm online = (\<lambda>c. None)" "width online = 128" "height online = 32"
  by (simp_all add: online_def utc_env_def)

lemma online_draw: "display_weather False online tampa = (drawn, None)"
  by (simp add: display_weather_def online_get current_reads rounds_to_72 redraw_needed_def
        cached_fields online_display run_calls_ok drawn_def)

lemma later_fetch:
  "fetch_weather online_later drawn = (refreshed, None)"
proof -
  have fields: "fromtimestamp online_later = utc_fromtimestamp" "set_iter online_later = remdups"
    "time_fetch online_later = 2001"
    "http_geo online_later = (\<lambda>city state country key. Inr tampa_coords)"
    "http_weather online_later = (\<lambda>lat lon key un. Inr (current (721 / 10) 55 ''Clouds''))"
    "http_forecast online_later = (\<lambda>lat lon key un. Inr (forecast_payload from_9am))"
    by (simp_all add: online_later_def online_def utc_env_def)
  show ?thesis
    by (simp add: fetch_weather_def fetch_try_def Let_def fields tampa_coords_reads
          from_9am_process [OF fields(1,2)] say_def refreshed_def drawn_def cached_def tampa_fields)
qed

lemma later_get:
  "get_weather online_later drawn = (refreshed, Inr (current (721 / 10) 55 ''Clouds''))"
proof -
  have "needs_fetch online_later drawn"
    by (simp add: needs_fetch_def drawn_def cached_fields online_later_def)
  then show ?thesis
    by (simp add: get_weather_def later_fetch) (simp add: refreshed_def)
qed

subsection \<open>The current conditions\<close>

text \<open>
  Claim C7. Once \<open>display_weather\<close> holds a payload and has read the rounded
  temperature and the condition from it, it redraws if \<open>force_clear\<close> is true, or no key
  is recorded, or the recorded pair differs from the current one, and only then. A call
  that does not redraw returns the manager as \<open>get_weather\<close> left it; a call whose
  drawing calls all succeed appends them to the screen and records the current pair; a
  call that raises leaves the recorded pair alone. In particular a call without
  \<open>force_clear\<close> whose pair is the recorded one skips the redraw.
\<close>

theorem redraw_decision:
  assumes "get_weather e s = (s1, Inr weather)" and "truthy weather"
      and "weather_fields weather = Inr (temp, condition, humidity)"
      and "last_temp s1 \<noteq> None \<longrightarrow> last_condition s1 \<noteq> None"
  shows "redraw_needed force_clear temp condition s1 =
           Inr (force_clear \<or> last_temp s1 = None \<or>
                (last_temp s1, last_condition s1) \<noteq> (Some temp, Some condition)) \<and>
         (redraw_needed force_clear temp condition s1 = Inr False \<longrightarrow>
            display_weather force_clear e s = (s1, None)) \<and>
         (redraw_needed force_clear temp condition s1 = Inr True \<longrightarrow>
            (\<forall>c\<in>set (weather_calls force_clear (width e) (height e) temp condition humidity).
               dm e c = None) \<longrightarrow>
            display_weather force_clear e s =
              (s1\<lparr>screen := screen s1 @
                     weather_calls force_clear (width e) (height e) temp condition humidity,
                   last_temp := Some temp, last_condition := Some condition\<rparr>, None)) \<and>
         (\<forall>x. snd (display_weather force_clear e s) = Some x \<longrightarrow>
            last_temp (fst (display_weather force_clear e s)) = last_temp s1 \<and>
            last_condition (fst (display_weather force_clear e s)) = last_condition s1) \<and>
         (last_temp s1 = Some temp \<longrightarrow> last_condition s1 = Some condition \<longrightarrow>
            display_weather False e s = (s1, None))"
proof -
  let ?calls = "weather_calls force_clear (width e) (height e) temp condition humidity"
  have decision: "redraw_needed force_clear temp condition s1 =
      Inr (force_clear \<or> last_temp s1 = None \<or>
           (last_temp s1, last_condition s1) \<noteq> (Some temp, Some condition))"
    using assms(4) by (auto simp: redraw_needed_def split: option.splits)
  have unfold: "display_weather force_clear e s =
      (case redraw_needed force_clear temp condition s1 of
         Inl x \<Rightarrow> (s1, Some x)
       | Inr False \<Rightarrow> (s1, None)
       | Inr True \<Rightarrow>
           (case run_calls (dm e) ?calls (screen s1) of
              (sc, Some x) \<Rightarrow> (s1\<lparr>screen := sc\<rparr>, Some x)
            | (sc, None) \<Rightarrow>
                (s1\<lparr>screen := sc, last_temp := Some temp, last_condition := Some condition\<rparr>, None)))"
    using assms(1-3) by (simp add: display_weather_def)
  have skip: "display_weather force_clear e s = (s1, None)"
    if "redraw_needed force_clear temp condition s1 = Inr False"
    using that by (simp add: unfold)
  have draw: "display_weather force_clear e s =
      (s1\<lparr>screen := screen s1 @ ?calls, last_temp := Some temp, last_condition := Some condition\<rparr>, None)"
    if "redraw_needed force_clear temp condition s1 = Inr True" and "\<forall>c\<in>set ?calls. dm e c = None"
    using that run_calls_ok [of ?calls "dm e" "screen s1"] by (simp add: unfold)
  have raised: "last_temp (fst (display_weather force_clear e s)) = last_temp s1 \<and>
      last_condition (fst (display_weather force_clear e s)) = last_condition s1"
    if "snd (display_weather force_clear e s) = Some x" for x
    using that unfolding unfold decision
    by (auto split: bool.splits prod.splits option.splits)
  have same: "display_weather False e s = (s1, None)"
    if "last_temp s1 = Some temp" and "last_condition s1 = Some condition"
    using that assms(1-3) by (simp add: display_weather_def redraw_needed_def)
  from decision skip draw raised same show ?thesis
    by blast
qed

text \<open>
  The first call on a new manager draws and records 72 and Clouds; a second call within
  the refresh interval, on the same payload, draws nothing.
\<close>

theorem redraw_decision_witness:
  "get_weather online tampa = (cached, Inr (current (724 / 10) 40 ''Clouds'')) \<and>
   truthy (current (724 / 10) 40 ''Clouds'') \<and>
   weather_fields (current (724 / 10) 40 ''Clouds'') = Inr (72, JStr ''Clouds'', JNum 40) \<and>
   last_temp cached = None \<and>
   redraw_needed False 72 (JStr ''Clouds'') cached = Inr True \<and>
   display_weather False online tampa = (drawn, None) \<and>
   last_temp drawn = Some 72 \<and> last_condition drawn = Some (JStr ''Clouds'') \<and>
   get_weather (online\<lparr>time_get := 1200\<rparr>) drawn = (drawn, Inr (current (724 / 10) 40 ''Clouds'')) \<and>
   display_weather False (online\<lparr>time_get := 1200\<rparr>) drawn = (drawn, None)"
proof -
  have fields: "weather_fields (current (724 / 10) 40 ''Clouds'') = Inr (72, JStr ''Clouds'', JNum 40)"
    by (simp add: current_reads rounds_to_72)
  have key: "last_temp drawn = Some 72" "last_condition drawn = Some (JStr ''Clouds'')"
    by (simp_all add: drawn_def)
  have again: "get_weather (online\<lparr>time_get := 1200\<rparr>) drawn =
      (drawn, Inr (current (724 / 10) 40 ''Clouds''))"
    by (simp add: get_weather_def needs_fetch_def drawn_def cached_fields current_reads)
  have pair: "last_temp drawn \<noteq> None \<longrightarrow> last_condition drawn \<noteq> None"
    by (simp add: key)
  from redraw_decision [OF again current_reads(1) fields pair, of False] key
  have "display_weather False (online\<lparr>time_get := 1200\<rparr>) drawn = (drawn, None)"
    by simp
  moreover have "redraw_needed False 72 (JStr ''Clouds'') cached = Inr True"
    by (simp add: redraw_needed_def cached_fields)
  ultimately show ?thesis
    using online_get fields key again
    by (simp add: current_reads cached_fields online_draw)
qed

subsection \<open>The humidity\<close>

text \<open>
  Claim C10. The pair that decides the redraw holds the rounded temperature and the
  condition only. When a call of \<open>display_weather\<close> without \<open>force_clear\<close> has returned
  on a payload, and the next call finds a payload with the same rounded temperature and
  the same condition, the next call draws nothing, whatever the humidity of the new
  payload: the screen keeps the humidity drawn before.
\<close>

theorem stale_humidity:
  assumes "display_weather False e1 s = (s1, None)"
      and "get_weather e1 s = (sa, Inr w1)" and "truthy w1"
      and "weather_fields w1 = Inr (temp, condition, h1)"
      and "get_weather e2 s1 = (sb, Inr w2)" and "truthy w2"
      and "weather_fields w2 = Inr (temp, condition, h2)"
  shows "display_weather False e2 s1 = (sb, None) \<and> screen sb = screen s1 \<and>
         last_temp sb = Some temp \<and> last_condition sb = Some condition"
proof -
  from display_weather_result [OF assms(2-4) assms(1)]
  have key: "last_temp s1 = Some temp" "last_condition s1 = Some condition"
    by simp_all
  from get_weather_effect [OF assms(5)] key
  have kept: "last_temp sb = Some temp" "last_condition sb = Some condition" "screen sb = screen s1"
    by simp_all
  with assms(5-7) have "display_weather False e2 s1 = (sb, None)"
    by (simp add: display_weather_def redraw_needed_def)
  with kept show ?thesis
    by simp
qed

text \<open>
  The humidity goes from 40 to 55 while the temperature goes from 72.4 to 72.1 under
  Clouds: the second call fetches the new payload and leaves the screen, which shows 40.
\<close>

theorem stale_humidity_witness:
  "display_weather False online tampa = (drawn, None) \<and>
   get_weather online tampa = (cached, Inr (current (724 / 10) 40 ''Clouds'')) \<and>
   truthy (current (724 / 10) 40 ''Clouds'') \<and>
   weather_fields (current (724 / 10) 40 ''Clouds'') = Inr (72, JStr ''Clouds'', JNum 40) \<and>
   get_weather online_later drawn = (refreshed, Inr (current (721 / 10) 55 ''Clouds'')) \<and>
   truthy (current (721 / 10) 55 ''Clouds'') \<and>
   weather_fields (current (721 / 10) 55 ''Clouds'') = Inr (72, JStr ''Clouds'', JNum 55) \<and>
   display_weather False online_later drawn = (refreshed, None) \<and>
   screen refreshed = weather_calls False 128 32 72 (JStr ''Clouds'') (JNum 40) \<and>
   DrawText (Humidity (JNum 40)) (Some PADDING) 24 COLORS_text True \<in> set (screen refreshed) \<and>
   weather_data refreshed = current (721 / 10) 55 ''Clouds''"
proof -
  have f1: "weather_fields (current (724 / 10) 40 ''Clouds'') = Inr (72, JStr ''Clouds'', JNum 40)"
    and f2: "weather_fields (current (721 / 10) 55 ''Clouds'') = Inr (72, JStr ''Clouds'', JNum 55)"
    by (simp_all add: current_reads rounds_to_72)
  have shown: "screen refreshed = weather_calls False 128 32 72 (JStr ''Clouds'') (JNum 40)"
    "weather_data refreshed = current (721 / 10) 55 ''Clouds''"
    by (simp_all add: refreshed_def drawn_def)
  have "DrawText (Humidity (JNum 40)) (Some PADDING) 24 COLORS_text True \<in> set (screen refreshed)"
    unfolding shown by (simp add: weather_calls_def)
  with stale_humidity [OF online_draw online_get current_reads(1) f1 later_get current_reads(1) f2]
    online_draw online_get later_get f1 f2 shown
  show ?thesis
    by (simp add: current_reads)
qed

subsection \<open>The frame gate of the two forecast views\<close>

lemma draw_hourly_gate:
  assumes "time_draw e - last_draw_time s < 1 / 10"
  shows "draw_hourly sp False e s = (s, None)"
  using assms by (simp add: draw_hourly_def)

lemma draw_daily_gate:
  assumes "time_draw e - last_draw_time s < 1 / 10"
  shows "draw_daily False e s = (s, None)"
  using assms by (simp add: draw_daily_def)

lemma display_hourly_gate:
  assumes "time_draw e - last_draw_time s < 1 / 10"
  shows "screen (fst (display_hourly_forecast sp False e s)) = screen s \<and>
         last_draw_time (fst (display_hourly_forecast sp False e s)) = last_draw_time s \<and>
         (truthy_list (hourly_forecast s) \<longrightarrow> display_hourly_forecast sp False e s = (s, None))"
proof (cases "truthy_list (hourly_forecast s)")
  case True
  with draw_hourly_gate [OF assms] show ?thesis
    by (simp add: display_hourly_forecast_def)
next
  case False
  obtain s1 r where run: "get_weather e s = (s1, r)"
    by (cases "get_weather e s") auto
  from get_weather_effect [OF run] have same: "screen s1 = screen s" "last_draw_time s1 = last_draw_time s"
    by simp_all
  with assms have "draw_hourly sp False e s1 = (s1, None)"
    by (simp add: draw_hourly_gate)
  with False run same show ?thesis
    by (simp add: display_hourly_forecast_def split: sum.splits)
qed

lemma display_daily_gate:
  assumes "time_draw e - last_draw_time s < 1 / 10"
  shows "screen (fst (display_daily_forecast False e s)) = screen s \<and>
         last_draw_time (fst (display_daily_forecast False e s)) = last_draw_time s \<and>
         (truthy_list (daily_forecast s) \<longrightarrow> display_daily_forecast False e s = (s, None))"
proof (cases "truthy_list (daily_forecast s)")
  case True
  with draw_daily_gate [OF assms] show ?thesis
    by (simp add: display_daily_forecast_def)
next
  case False
  obtain s1 r where run: "get_weather e s = (s1, r)"
    by (cases "get_weather e s") auto
  from get_weather_effect [OF run] have same: "screen s1 = screen s" "last_draw_time s1 = last_draw_time s"
    by simp_all
  with assms have "draw_daily False e s1 = (s1, None)"
    by (simp add: draw_daily_gate)
  with False run same show ?thesis
    by (simp add: display_daily_forecast_def split: sum.splits)
qed

lemma display_hourly_draws:
  assumes "hourly_forecast s = Some fc" and "fc \<noteq> []" and "\<forall>c. dm e c = None"
      and "force_clear \<or> 1 / 10 \<le> time_draw e - last_draw_time s"
  shows "display_hourly_forecast sp force_clear e s =
           (s\<lparr>screen := screen s @ hourly_calls force_clear (width e) (height e) sp fc,
               last_draw_time := time_draw e\<rparr>, None)"
  using assms run_calls_ok [of "hourly_calls force_clear (width e) (height e) sp fc" "dm e" "screen s"]
  by (auto simp: display_hourly_forecast_def draw_hourly_def truthy_list_def)

lemma display_daily_draws:
  assumes "daily_forecast s = Some fc" and "fc \<noteq> []" and "\<forall>c. dm e c = None"
      and "force_clear \<or> 1 / 10 \<le> time_draw e - last_draw_time s"
  shows "display_daily_forecast force_clear e s =
           (s\<lparr>screen := screen s @ daily_calls force_clear (width e) (height e) fc,
               last_draw_time := time_draw e\<rparr>, None)"
  using assms run_calls_ok [of "daily_calls force_clear (width e) (height e) fc" "dm e" "screen s"]
  by (auto simp: display_daily_forecast_def draw_daily_def truthy_list_def)

text \<open>
  Claim C9. The hourly and the daily view are gated by the same \<open>last_draw_time\<close>. When
  one of them has been drawn at time \<open>t\<close>, a call of the other one without
  \<open>force_clear\<close> at a time less than 0.1 after \<open>t\<close> (or before \<open>t\<close>) draws nothing and
  leaves \<open>last_draw_time\<close> at \<open>t\<close>; where the other view has a forecast to show, the call
  returns the manager unchanged. Times are exact numbers here, and 0.1 is one tenth.
\<close>

theorem shared_frame_gate:
  assumes "\<forall>c. dm e1 c = None" and "force_clear \<or> 1 / 10 \<le> time_draw e1 - last_draw_time s"
      and "time_draw e2 - time_draw e1 < 1 / 10"
  shows "(\<forall>fc. hourly_forecast s = Some fc \<longrightarrow> fc \<noteq> [] \<longrightarrow>
            display_hourly_forecast sp force_clear e1 s =
              (s\<lparr>screen := screen s @ hourly_calls force_clear (width e1) (height e1) sp fc,
                  last_draw_time := time_draw e1\<rparr>, None) \<and>
            screen (fst (display_daily_forecast False e2 (fst (display_hourly_forecast sp force_clear e1 s)))) =
              screen s @ hourly_calls force_clear (width e1) (height e1) sp fc \<and>
            last_draw_time (fst (display_daily_forecast False e2 (fst (display_hourly_forecast sp force_clear e1 s)))) =
              time_draw e1 \<and>
            (truthy_list (daily_forecast s) \<longrightarrow>
               display_daily_forecast False e2 (fst (display_hourly_forecast sp force_clear e1 s)) =
                 (fst (display_hourly_forecast sp force_clear e1 s), None))) \<and>
         (\<forall>fc. daily_forecast s = Some fc \<longrightarrow> fc \<noteq> [] \<longrightarrow>
            display_daily_forecast force_clear e1 s =
              (s\<lparr>screen := screen s @ daily_calls force_clear (width e1) (height e1) fc,
                  last_draw_time := time_draw e1\<rparr>, None) \<and>
            screen (fst (display_hourly_forecast sp' False e2 (fst (display_daily_forecast force_clear e1 s)))) =
              screen s @ daily_calls force_clear (width e1) (height e1) fc \<and>
            last_draw_time (fst (display_hourly_forecast sp' False e2 (fst (display_daily_forecast force_clear e1 s)))) =
              time_draw e1 \<and>
            (truthy_list (hourly_forecast s) \<longrightarrow>
               display_hourly_forecast sp' False e2 (fst (display_daily_forecast force_clear e1 s)) =
                 (fst (display_daily_forecast force_clear e1 s), None)))"
proof -
  have hourly_first: "display_hourly_forecast sp force_clear e1 s =
        (s\<lparr>screen := screen s @ hourly_calls force_clear (width e1) (height e1) sp fc,
            last_draw_time := time_draw e1\<rparr>, None) \<and>
      screen (fst (display_daily_forecast False e2 (fst (display_hourly_forecast sp force_clear e1 s)))) =
        screen s @ hourly_calls force_clear (width e1) (height e1) sp fc \<and>
      last_draw_time (fst (display_daily_forecast False e2 (fst (display_hourly_forecast sp force_clear e1 s)))) =
        time_draw e1 \<and>
      (truthy_list (daily_forecast s) \<longrightarrow>
         display_daily_forecast False e2 (fst (display_hourly_forecast sp force_clear e1 s)) =
           (fst (display_hourly_forecast sp force_clear e1 s), None))"
    if fc: "hourly_forecast s = Some fc" "fc \<noteq> []" for fc
  proof -
    let ?s1 = "s\<lparr>screen := screen s @ hourly_calls force_clear (width e1) (height e1) sp fc,
                  last_draw_time := time_draw e1\<rparr>"
    have drawn: "display_hourly_forecast sp force_clear e1 s = (?s1, None)"
      by (rule display_hourly_draws [OF fc assms(1,2)])
    have "time_draw e2 - last_draw_time ?s1 < 1 / 10"
      using assms(3) by simp
    from display_daily_gate [OF this] show ?thesis
      unfolding drawn by simp
  qed
  have daily_first: "display_daily_forecast force_clear e1 s =
        (s\<lparr>screen := screen s @ daily_calls force_clear (width e1) (height e1) fc,
            last_draw_time := time_draw e1\<rparr>, None) \<and>
      screen (fst (display_hourly_forecast sp' False e2 (fst (display_daily_forecast force_clear e1 s)))) =
        screen s @ daily_calls force_clear (width e1) (height e1) fc \<and>
      last_draw_time (fst (display_hourly_forecast sp' False e2 (fst (display_daily_forecast force_clear e1 s)))) =
        time_draw e1 \<and>
      (truthy_list (hourly_forecast s) \<longrightarrow>
         display_hourly_forecast sp' False e2 (fst (display_daily_forecast force_clear e1 s)) =
           (fst (display_daily_forecast force_clear e1 s), None))"
    if fc: "daily_forecast s = Some fc" "fc \<noteq> []" for fc
  proof -
    let ?s1 = "s\<lparr>screen := screen s @ daily_calls force_clear (width e1) (height e1) fc,
                  last_draw_time := time_draw e1\<rparr>"
    have drawn: "display_daily_forecast force_clear e1 s = (?s1, None)"
      by (rule display_daily_draws [OF fc assms(1,2)])
    have "time_draw e2 - last_draw_time ?s1 < 1 / 10"
      using assms(3) by simp
    from display_hourly_gate [OF this, of sp'] show ?thesis
      unfolding drawn by simp
  qed
  from hourly_first daily_first show ?thesis
    by blast
qed

text \<open>With both forecasts present, each view drawn at time 5 suppresses the other at 5.05.\<close>

theorem shared_frame_gate_witness:
  "(\<forall>c. dm at_5 c = None) \<and>
   1 / 10 \<le> time_draw at_5 - last_draw_time cached \<and>
   time_draw soon_after - time_draw at_5 < 1 / 10 \<and>
   hourly_forecast cached = Some from_9am_hours \<and> from_9am_hours \<noteq> [] \<and>
   daily_forecast cached = Some from_9am_days \<and> from_9am_days \<noteq> [] \<and>
   display_hourly_forecast 0 False at_5 cached = (hourly_shown, None) \<and>
   display_daily_forecast False soon_after hourly_shown = (hourly_shown, None) \<and>
   display_daily_forecast False at_5 cached = (daily_shown, None) \<and>
   display_hourly_forecast 0 False soon_after daily_shown = (daily_shown, None)"
proof -
  have works: "\<forall>c. dm at_5 c = None"
    by (simp add: at_5_def utc_env_def)
  have opened: "False \<or> 1 / 10 \<le> time_draw at_5 - last_draw_time cached"
    by (simp add: at_5_def utc_env_def cached_fields)
  have close: "time_draw soon_after - time_draw at_5 < 1 / 10"
    by (simp add: at_5_def soon_after_def utc_env_def)
  have some: "from_9am_hours \<noteq> []" "from_9am_days \<noteq> []"
    by (simp_all add: from_9am_hours_def from_9am_days_def)
  have size: "width at_5 = 128" "height at_5 = 32" "time_draw at_5 = 5"
    "time_draw soon_after = 101 / 20"
    by (simp_all add: at_5_def soon_after_def utc_env_def)
  note gate = shared_frame_gate [OF works opened close, of 0 0]
  note hourly_first = gate [THEN conjunct1, rule_format, OF cached_fields(1) some(1)]
  note daily_first = gate [THEN conjunct2, rule_format, OF cached_fields(2) some(2)]
  have both: "truthy_list (daily_forecast cached)" "truthy_list (hourly_forecast cached)"
    using some by (simp_all add: cached_fields truthy_list_def)
  from hourly_first have h: "display_hourly_forecast 0 False at_5 cached = (hourly_shown, None)"
    by (simp add: size hourly_shown_def cached_fields)
  from daily_first have d: "display_daily_forecast False at_5 cached = (daily_shown, None)"
    by (simp add: size daily_shown_def cached_fields)
  from hourly_first both
  have "display_daily_forecast False soon_after (fst (display_hourly_forecast 0 False at_5 cached)) =
      (fst (display_hourly_forecast 0 False at_5 cached), None)"
    by blast
  then have hd: "display_daily_forecast False soon_after hourly_shown = (hourly_shown, None)"
    unfolding h by simp
  from daily_first both
  have "display_hourly_forecast 0 False soon_after (fst (display_daily_forecast False at_5 cached)) =
      (fst (display_daily_forecast False at_5 cached), None)"
    by blast
  then have dh: "display_hourly_forecast 0 False soon_after daily_shown = (daily_shown, None)"
    unfolding d by simp
  from works opened close some h d hd dh show ?thesis
    by (simp add: cached_fields)
qed

end
